theory Spec2Isabelle
  imports Complex_Main
begin

section \<open>Shared types\<close>

text \<open>
  \<^verbatim>\<open>export type Role = "host" | "client"\<close>. A provider that returns \<^verbatim>\<open>Role | null\<close>
  is a \<open>role option\<close>.
\<close>

datatype role = Host | Client

section \<open>Remote-input protocol (WebRtcManager.handleControlMessage)\<close>

text \<open>
  A JavaScript number is either finite or one of NaN, Infinity, -Infinity; the only
  test the code applies is \<^verbatim>\<open>Number.isFinite\<close>, so the three non-finite values are one
  constructor. A finite double is the real number it denotes; arithmetic on doubles is
  not the arithmetic of the reals, and the one product the handler computes is the
  browser's (\<open>doubleTimes\<close> below).
\<close>

datatype jsnum = Finite real | NonFinite

text \<open>
  The result of \<^verbatim>\<open>JSON.parse\<close>: a value whose object case lists the own properties
  (arrays are objects whose keys are the indices).
\<close>

datatype jsval =
    JUndefined
  | JNull
  | JBool bool
  | JNum jsnum
  | JStr string
  | JObj "(string \<times> jsval) list"

text \<open>What arrives on the data channel: a string, or binary data.\<close>

datatype rawdata = RawString string | RawBinary

text \<open>
  The side effects of the handler, in the order they happen:
  \<^verbatim>\<open>window.scrollBy\<close>, \<^verbatim>\<open>options.onRemoteMediaCommand\<close>, and \<^verbatim>\<open>target.dispatchEvent\<close>
  of a mouse event (target element, event type, clientX, clientY, button).
\<close>

datatype effect =
    ScrollBy real real
  | RemoteMediaCommand string
  | DispatchMouseEvent nat string int int real

text \<open>
  The browser around the handler: \<^verbatim>\<open>JSON.parse\<close> (\<open>None\<close> when it throws), the window
  size, \<^verbatim>\<open>document.elementFromPoint\<close> (\<open>None\<close> for null), and the multiplication of
  two doubles, \<^verbatim>\<open>a * b\<close>: the double nearest to the exact product, which is the exact
  product only when that is a double.
\<close>

record browser =
  jsonParse :: "string \<Rightarrow> jsval option"
  innerWidth :: real
  innerHeight :: real
  elementFromPoint :: "int \<Rightarrow> int \<Rightarrow> nat option"
  doubleTimes :: "real \<Rightarrow> real \<Rightarrow> real"

definition isRecord :: "jsval \<Rightarrow> bool" where
  "isRecord v = (case v of JObj _ \<Rightarrow> True | _ \<Rightarrow> False)"

definition isFiniteNumber :: "jsval \<Rightarrow> bool" where
  "isFiniteNumber v = (case v of JNum (Finite _) \<Rightarrow> True | _ \<Rightarrow> False)"

definition isString :: "jsval \<Rightarrow> bool" where
  "isString v = (case v of JStr _ \<Rightarrow> True | _ \<Rightarrow> False)"

text \<open>\<^verbatim>\<open>payload.name\<close>: undefined when the property is missing or the value has none.\<close>

definition getProp :: "jsval \<Rightarrow> string \<Rightarrow> jsval" where
  "getProp v name =
     (case v of
        JObj kvs \<Rightarrow> (case map_of kvs name of None \<Rightarrow> JUndefined | Some x \<Rightarrow> x)
      | _ \<Rightarrow> JUndefined)"

definition strLength :: "jsval \<Rightarrow> nat" where
  "strLength v = (case v of JStr s \<Rightarrow> length s | _ \<Rightarrow> 0)"

text \<open>
  Reading a field that \<open>isInboundControlMessage\<close> has already checked to be a finite
  number; the other case is never reached from \<open>handleControlMessage\<close>.
\<close>

definition numOf :: "jsval \<Rightarrow> real" where
  "numOf v = (case v of JNum (Finite r) \<Rightarrow> r | _ \<Rightarrow> 0)"

definition clamp :: "real \<Rightarrow> real \<Rightarrow> real \<Rightarrow> real" where
  "clamp v lo hi = min (max v lo) hi"

text \<open>
  \<^verbatim>\<open>Math.round\<close> of a double: the nearest integer to the number the double denotes,
  halves upwards. (It is applied to the double product, never to an exact one.)
\<close>

definition mathRound :: "real \<Rightarrow> int" where
  "mathRound v = \<lfloor>v + 1 / 2\<rfloor>"

definition isInboundControlMessage :: "jsval \<Rightarrow> bool" where
  "isInboundControlMessage payload =
     (if \<not> isRecord payload \<or> \<not> isString (getProp payload ''type'') then False
      else if \<not> isString (getProp payload ''senderUserId'')
              \<or> strLength (getProp payload ''senderUserId'') < 10 then False
      else if getProp payload ''type'' = JStr ''mousemove'' then
        isFiniteNumber (getProp payload ''x'') \<and> isFiniteNumber (getProp payload ''y'')
      else if getProp payload ''type'' = JStr ''click'' then
        isFiniteNumber (getProp payload ''x'') \<and> isFiniteNumber (getProp payload ''y'')
        \<and> isFiniteNumber (getProp payload ''button'')
      else if getProp payload ''type'' = JStr ''scroll'' then
        isFiniteNumber (getProp payload ''deltaX'') \<and> isFiniteNumber (getProp payload ''deltaY'')
      else if getProp payload ''type'' = JStr ''toggle-camera''
              \<or> getProp payload ''type'' = JStr ''toggle-mic'' then True
      else False)"

definition dispatchMouseEvent :: "browser \<Rightarrow> string \<Rightarrow> int \<Rightarrow> int \<Rightarrow> real \<Rightarrow> effect list" where
  "dispatchMouseEvent w ty x y button =
     (case elementFromPoint w x y of
        None \<Rightarrow> []
      | Some target \<Rightarrow> [DispatchMouseEvent target ty x y button])"

text \<open>
  \<open>handleControlMessage w role hostUserId rawData\<close>: \<open>role\<close> is what
  \<^verbatim>\<open>options.roleProvider()\<close> returns and \<open>hostUserId\<close> what
  \<^verbatim>\<open>options.hostUserIdProvider()\<close> returns (\<^verbatim>\<open>state.room?.hostUserId ?? null\<close>); the
  empty string is falsy, as \<^verbatim>\<open>!hostUserId\<close> has it.
\<close>

definition handleControlMessage ::
  "browser \<Rightarrow> role option \<Rightarrow> string option \<Rightarrow> rawdata \<Rightarrow> effect list" where
  "handleControlMessage w role hostUserId rawData =
     (if role \<noteq> Some Client then []
      else case rawData of
        RawBinary \<Rightarrow> []
      | RawString s \<Rightarrow>
         (case jsonParse w s of
            None \<Rightarrow> []
          | Some parsed \<Rightarrow>
             if \<not> isInboundControlMessage parsed then []
             else if hostUserId = None \<or> hostUserId = Some []
                     \<or> getProp parsed ''senderUserId'' \<noteq> JStr (the hostUserId) then []
             else if getProp parsed ''type'' = JStr ''scroll'' then
               [ScrollBy (numOf (getProp parsed ''deltaX'')) (numOf (getProp parsed ''deltaY''))]
             else if getProp parsed ''type'' = JStr ''toggle-camera'' then
               [RemoteMediaCommand ''toggle-camera'']
             else if getProp parsed ''type'' = JStr ''toggle-mic'' then
               [RemoteMediaCommand ''toggle-mic'']
             else
               (let px = mathRound (doubleTimes w (clamp (numOf (getProp parsed ''x'')) 0 1)
                                      (innerWidth w));
                    py = mathRound (doubleTimes w (clamp (numOf (getProp parsed ''y'')) 0 1)
                                      (innerHeight w))
                in if getProp parsed ''type'' = JStr ''mousemove'' then
                     dispatchMouseEvent w ''mousemove'' px py 0
                   else
                     dispatchMouseEvent w ''mousedown'' px py (numOf (getProp parsed ''button''))
                     @ dispatchMouseEvent w ''mouseup'' px py (numOf (getProp parsed ''button''))
                     @ dispatchMouseEvent w ''click'' px py (numOf (getProp parsed ''button'')))))"

text \<open>
  A concrete browser for the examples: a 1280 by 720 window in which every point lies
  on element 7, and a \<^verbatim>\<open>JSON.parse\<close> that knows two click messages, one sent by the
  room's host and one sent by somebody else. The products the examples need, 0.5 * 1280
  and 0.25 * 720, are doubles, so the exact product stands for \<open>doubleTimes\<close> here.
\<close>

definition hostClickText :: string where
  \<open>hostClickText =
     ''{"type":"click","x":0.5,"y":0.25,"button":0,"senderUserId":"host-user-0001"}''\<close>

definition intruderClickText :: string where
  \<open>intruderClickText =
     ''{"type":"click","x":0.5,"y":0.25,"button":0,"senderUserId":"intruder-0001"}''\<close>

definition clickFrom :: "string \<Rightarrow> jsval" where
  "clickFrom sender =
     JObj [(''type'', JStr ''click''), (''x'', JNum (Finite (1 / 2))),
           (''y'', JNum (Finite (1 / 4))), (''button'', JNum (Finite 0)),
           (''senderUserId'', JStr sender)]"

definition exampleBrowser :: browser where
  "exampleBrowser =
     \<lparr> jsonParse = (\<lambda>s. if s = hostClickText then Some (clickFrom ''host-user-0001'')
                         else if s = intruderClickText then Some (clickFrom ''intruder-0001'')
                         else None),
       innerWidth = 1280,
       innerHeight = 720,
       elementFromPoint = (\<lambda>x y. Some 7),
       doubleTimes = (\<lambda>a b. a * b) \<rparr>"

section \<open>Identity and room registry (memoryStore)\<close>

text \<open>
  \<^verbatim>\<open>interface Room\<close>: the optional fields are \<open>option\<close>s, \<open>None\<close> for a property that is
  absent (never set, or deleted). The field \<^verbatim>\<open>id\<close> is \<open>roomId\<close> here.
\<close>

record room =
  roomId :: string
  hostUserId :: string
  clientUserId :: "string option"
  hostSocketId :: "string option"
  clientSocketId :: "string option"
  controlActive :: bool
  cameraActive :: bool

text \<open>
  JavaScript truthiness of an optional string, as in \<^verbatim>\<open>if (room.clientSocketId)\<close>:
  undefined and the empty string are falsy.
\<close>

definition truthy :: "string option \<Rightarrow> bool" where
  "truthy v = (case v of None \<Rightarrow> False | Some s \<Rightarrow> s \<noteq> [])"

definition isDigit :: "char \<Rightarrow> bool" where
  "isDigit c = (c \<in> set ''0123456789'')"

text \<open>\<^verbatim>\<open>ROOM_ID_PATTERN = /^\d{6}$/\<close>\<close>

definition isRoomId :: "string \<Rightarrow> bool" where
  "isRoomId v = (length v = 6 \<and> list_all isDigit v)"

text \<open>\<^verbatim>\<open>USER_ID_PATTERN = /^[a-z0-9-]{10,80}$/i\<close>\<close>

definition isUserIdChar :: "char \<Rightarrow> bool" where
  "isUserIdChar c =
     (c \<in> set ''abcdefghijklmnopqrstuvwxyzABCDEFGHIJKLMNOPQRSTUVWXYZ0123456789-'')"

definition isUserId :: "string \<Rightarrow> bool" where
  "isUserId v = (10 \<le> length v \<and> length v \<le> 80 \<and> list_all isUserIdChar v)"

text \<open>
  \<^verbatim>\<open>Math.floor(Math.random() * 1_000_000).toString().padStart(6, "0")\<close>, as a function of
  the integer \<^verbatim>\<open>Math.floor(Math.random() * 1_000_000)\<close>.
\<close>

fun natToString :: "nat \<Rightarrow> string" where
  "natToString n =
     (if n < 10 then [''0123456789'' ! n]
      else natToString (n div 10) @ [''0123456789'' ! (n mod 10)])"

definition padStart :: "nat \<Rightarrow> char \<Rightarrow> string \<Rightarrow> string" where
  "padStart n c v = replicate (n - length v) c @ v"

definition randomRoomId :: "nat \<Rightarrow> string" where
  "randomRoomId d = padStart 6 (CHR ''0'') (natToString d)"

text \<open>
  The registry \<^verbatim>\<open>rooms = new Map()\<close> is the list of its values in insertion order; the
  key of a room is its \<open>roomId\<close>.
\<close>

definition getRoom :: "room list \<Rightarrow> string \<Rightarrow> room option" where
  "getRoom rs k = find (\<lambda>r. roomId r = k) rs"

text \<open>
  Handlers mutate the room object they looked up; \<open>putRoom r rs\<close> is the registry after
  the object with the key of \<open>r\<close> has become \<open>r\<close>.
\<close>

definition putRoom :: "room \<Rightarrow> room list \<Rightarrow> room list" where
  "putRoom r rs = map (\<lambda>x. if roomId x = roomId r then r else x) rs"

text \<open>
  \<open>ensureRoomId\<close>: the loop over \<open>attempts\<close>; \<open>draw i\<close> is the integer drawn in
  attempt \<open>i\<close>. \<open>None\<close> stands for
  \<^verbatim>\<open>throw new Error("Unable to generate unique room code.")\<close>.
\<close>

function ensureRoomIdFrom :: "(nat \<Rightarrow> nat) \<Rightarrow> room list \<Rightarrow> nat \<Rightarrow> string option" where
  "ensureRoomIdFrom draw rs attempts =
     (if attempts < 1000000 then
        (let k = randomRoomId (draw attempts)
         in if \<not> isRoomId k then ensureRoomIdFrom draw rs (attempts + 1)
            else if getRoom rs k = None then Some k
            else ensureRoomIdFrom draw rs (attempts + 1))
      else None)"
  by pat_completeness auto
termination
  by (relation "measure (\<lambda>(draw, rs, attempts). 1000000 - attempts)") auto

declare ensureRoomIdFrom.simps [simp del]

declare natToString.simps [simp del]

definition ensureRoomId :: "(nat \<Rightarrow> nat) \<Rightarrow> room list \<Rightarrow> string option" where
  "ensureRoomId draw rs = ensureRoomIdFrom draw rs 0"

text \<open>\<open>createRoom\<close> returns the new room and the registry with it, or \<open>None\<close> when
  \<open>ensureRoomId\<close> throws.\<close>

definition createRoom ::
  "(nat \<Rightarrow> nat) \<Rightarrow> room list \<Rightarrow> string \<Rightarrow> string \<Rightarrow> (room \<times> room list) option" where
  "createRoom draw rs hostUser hostSocket =
     (case ensureRoomId draw rs of
        None \<Rightarrow> None
      | Some k \<Rightarrow>
          (let r = \<lparr> roomId = k, hostUserId = hostUser, clientUserId = None,
                     hostSocketId = Some hostSocket, clientSocketId = None,
                     controlActive = False, cameraActive = False \<rparr>
           in Some (r, rs @ [r])))"

fun findRoomByUserId :: "room list \<Rightarrow> string \<Rightarrow> (room \<times> role) option" where
  "findRoomByUserId [] u = None"
| "findRoomByUserId (r # rs) u =
     (if hostUserId r = u then Some (r, Host)
      else if clientUserId r = Some u then Some (r, Client)
      else findRoomByUserId rs u)"

fun findRoomBySocketId :: "room list \<Rightarrow> string \<Rightarrow> (room \<times> role) option" where
  "findRoomBySocketId [] sid = None"
| "findRoomBySocketId (r # rs) sid =
     (if hostSocketId r = Some sid then Some (r, Host)
      else if clientSocketId r = Some sid then Some (r, Client)
      else findRoomBySocketId rs sid)"

definition attachSocket :: "room \<Rightarrow> role \<Rightarrow> string \<Rightarrow> room" where
  "attachSocket r ro sid =
     (case ro of
        Host \<Rightarrow> r\<lparr>hostSocketId := Some sid\<rparr>
      | Client \<Rightarrow> r\<lparr>clientSocketId := Some sid\<rparr>)"

definition clearSocket :: "room \<Rightarrow> role \<Rightarrow> room" where
  "clearSocket r ro =
     (case ro of
        Host \<Rightarrow> r\<lparr>hostSocketId := None, controlActive := False, cameraActive := False\<rparr>
      | Client \<Rightarrow> r\<lparr>clientSocketId := None, controlActive := False, cameraActive := False\<rparr>)"

text \<open>\<open>removeSocket\<close> returns the registry after the clear and what it detached.\<close>

definition removeSocket :: "room list \<Rightarrow> string \<Rightarrow> room list \<times> (room \<times> role) option" where
  "removeSocket rs sid =
     (case findRoomBySocketId rs sid of
        None \<Rightarrow> (rs, None)
      | Some (r, ro) \<Rightarrow> (putRoom (clearSocket r ro) rs, Some (clearSocket r ro, ro)))"

definition canUserControlRoom :: "room \<Rightarrow> string \<Rightarrow> bool" where
  "canUserControlRoom r u = (hostUserId r = u)"

definition canUserActAsClient :: "room \<Rightarrow> string \<Rightarrow> bool" where
  "canUserActAsClient r u = (clientUserId r = Some u)"

section \<open>Session gateway (socket.js)\<close>

text \<open>\<^verbatim>\<open>interface IceCandidatePayload\<close> and \<^verbatim>\<open>type WebRtcSignal\<close>\<close>

record iceCandidate =
  candidate :: string
  sdpMid :: "string option"
  sdpMLineIndex :: "nat option"
  usernameFragment :: "string option"

datatype signal = Offer string | Answer string | IceCandidate iceCandidate

text \<open>
  What the server sends: the event name with its payload. \<open>UncaughtError\<close> is not an
  emission: it records that the handler was left by an exception.
\<close>

datatype payload =
    SocketReady string
  | RoomError string
  | IdentifyOk string bool "(role \<times> room) option"
  | SessionRestored room role
  | PeerReconnected string role "string option"
  | RoomUpdate room
  | RoomCreated room
  | RoomJoined room
  | RoomClientJoined room string
  | RoomRejoined room role
  | WebrtcSignal string string signal
  | CameraRequest string string
  | CameraPermission string bool
  | MediaKind string string string
  | PeerDisconnected string role
  | UncaughtError string

text \<open>
  An emission is the socket id it is addressed to (\<^verbatim>\<open>socket.emit\<close> addresses the
  caller, \<^verbatim>\<open>io.to(id).emit\<close> the socket with that id) and the payload.
\<close>

type_synonym emission = "string \<times> payload"

text \<open>
  The server: the registry, and the transport's table of live sockets
  (\<^verbatim>\<open>io.sockets.sockets\<close>) with the \<^verbatim>\<open>data.userId\<close> of each (\<open>None\<close> until set).
  \<^verbatim>\<open>socket.join(room.id)\<close> is not part of the state: no handler emits to the group
  named by a room code.
\<close>

record server =
  rooms :: "room list"
  sockets :: "string \<rightharpoonup> string option"

definition emitError :: "string \<Rightarrow> string \<Rightarrow> emission list" where
  "emitError sid message = [(sid, RoomError message)]"

definition isCurrentSocketForRole :: "room \<Rightarrow> role \<Rightarrow> string \<Rightarrow> bool" where
  "isCurrentSocketForRole r ro sid =
     (case ro of Host \<Rightarrow> hostSocketId r = Some sid | Client \<Rightarrow> clientSocketId r = Some sid)"

definition roleOfUserInRoom :: "room \<Rightarrow> string \<Rightarrow> role option" where
  "roleOfUserInRoom r u =
     (if hostUserId r = u then Some Host
      else if clientUserId r = Some u then Some Client
      else None)"

definition roomPeerSocketId :: "room \<Rightarrow> role \<Rightarrow> string option" where
  "roomPeerSocketId r ro =
     (let peerSocketId = (case ro of Host \<Rightarrow> clientSocketId r | Client \<Rightarrow> hostSocketId r);
          selfSocketId = (case ro of Host \<Rightarrow> hostSocketId r | Client \<Rightarrow> clientSocketId r)
      in if \<not> truthy peerSocketId \<or> peerSocketId = selfSocketId then None else peerSocketId)"

definition normalizeRoomState :: "room \<Rightarrow> room" where
  "normalizeRoomState r =
     (let c1 = (truthy (clientUserId r) \<and> clientUserId r = Some (hostUserId r));
          r1 = (if c1 then r\<lparr>clientUserId := None\<rparr> else r);
          c2 = (truthy (clientSocketId r1) \<and> truthy (hostSocketId r1)
                \<and> clientSocketId r1 = hostSocketId r1);
          r2 = (if c2 then r1\<lparr>clientSocketId := None\<rparr> else r1);
          c3 = (\<not> truthy (clientUserId r2) \<and> truthy (clientSocketId r2));
          r3 = (if c3 then r2\<lparr>clientSocketId := None\<rparr> else r2)
      in if c1 \<or> c2 \<or> c3 then r3\<lparr>controlActive := False, cameraActive := False\<rparr> else r3)"

definition emitRoomUpdate :: "room \<Rightarrow> emission list" where
  "emitRoomUpdate r =
     (if truthy (hostSocketId r) then [(the (hostSocketId r), RoomUpdate r)] else [])
     @ (if truthy (clientSocketId r) then [(the (clientSocketId r), RoomUpdate r)] else [])"

text \<open>
  \<open>restoreSession uid sid r ro\<close>: \<open>uid\<close> is \<^verbatim>\<open>getUserId(socket)\<close> and \<open>sid\<close> is
  \<^verbatim>\<open>socket.id\<close>. It returns the room as it has become and what was emitted.
\<close>

definition restoreSession ::
  "string option \<Rightarrow> string \<Rightarrow> room \<Rightarrow> role \<Rightarrow> room \<times> emission list" where
  "restoreSession uid sid r ro =
     (let r' = normalizeRoomState (attachSocket (normalizeRoomState r) ro sid)
      in (r',
          [(sid, SessionRestored r' ro)]
          @ (case roomPeerSocketId r' ro of
               None \<Rightarrow> []
             | Some peer \<Rightarrow> [(peer, PeerReconnected (roomId r') ro uid)])
          @ emitRoomUpdate r'))"

text \<open>\<open>ensureIdentified\<close>: the user id of the socket, or \<open>None\<close> after the error is sent.\<close>

definition ensureIdentified :: "string option \<Rightarrow> string option" where
  "ensureIdentified uid = (if truthy uid then uid else None)"

definition isRole :: "string \<Rightarrow> bool" where
  "isRole v = (v = ''host'' \<or> v = ''client'')"

definition roleOfString :: "string \<Rightarrow> role" where
  "roleOfString v = (if v = ''host'' then Host else Client)"

text \<open>
  \<open>isWebRtcSignal\<close>: \<open>None\<close> is a \<^verbatim>\<open>signal\<close> field that is no record, has a type other
  than the three, or holds an ill-typed candidate.
\<close>

definition isWebRtcSignal :: "signal option \<Rightarrow> bool" where
  "isWebRtcSignal v =
     (case v of
        None \<Rightarrow> False
      | Some (Offer sdp) \<Rightarrow> length sdp > 0
      | Some (Answer sdp) \<Rightarrow> length sdp > 0
      | Some (IceCandidate c) \<Rightarrow> True)"

definition isMediaKindPayload :: "string \<Rightarrow> string \<Rightarrow> string \<Rightarrow> bool" where
  "isMediaKindPayload k streamId kind =
     (isRoomId k \<and> length streamId > 0 \<and> (kind = ''screen'' \<or> kind = ''camera''))"

text \<open>
  \<open>socketUserId s sid\<close> is \<^verbatim>\<open>getUserId\<close> of the live socket \<open>sid\<close>, and also
  \<open>socketUserIdBySocketId\<close>: \<open>None\<close> when there is no such socket or it has no user id.
\<close>

definition socketUserId :: "server \<Rightarrow> string \<Rightarrow> string option" where
  "socketUserId s sid = (case sockets s sid of None \<Rightarrow> None | Some uid \<Rightarrow> uid)"

text \<open>
  The handlers. Each takes the server and \<^verbatim>\<open>socket.id\<close> and returns the server as the
  handler leaves it, with the emissions in the order they are made.
\<close>

definition onIdentify :: "server \<Rightarrow> string \<Rightarrow> string \<Rightarrow> server \<times> emission list" where
  "onIdentify s sid uid =
     (if \<not> isUserId uid then (s, emitError sid ''Invalid identify payload.'')
      else
        (let s1 = s\<lparr>sockets := (sockets s)(sid \<mapsto> Some uid)\<rparr>
         in case findRoomByUserId (rooms s1) uid of
              None \<Rightarrow> (s1, [(sid, IdentifyOk uid False None)])
            | Some (r, ro) \<Rightarrow>
                (let rs = restoreSession (Some uid) sid r ro
                 in (s1\<lparr>rooms := putRoom (fst rs) (rooms s1)\<rparr>,
                     snd rs @ [(sid, IdentifyOk uid True (Some (ro, fst rs)))]))))"

definition onRoomCreate :: "server \<Rightarrow> string \<Rightarrow> (nat \<Rightarrow> nat) \<Rightarrow> server \<times> emission list" where
  "onRoomCreate s sid draw =
     (case ensureIdentified (socketUserId s sid) of
        None \<Rightarrow> (s, emitError sid ''Identify first.'')
      | Some u \<Rightarrow>
         (case findRoomByUserId (rooms s) u of
            Some (r, Host) \<Rightarrow>
              (let rs = restoreSession (Some u) sid r Host
               in (s\<lparr>rooms := putRoom (fst rs) (rooms s)\<rparr>,
                   snd rs @ [(sid, RoomCreated (fst rs))]))
          | Some (r, Client) \<Rightarrow> (s, emitError sid ''Already joined another room as client.'')
          | None \<Rightarrow>
              (case createRoom draw (rooms s) u sid of
                 None \<Rightarrow> (s, [(sid, UncaughtError ''Unable to generate unique room code.'')])
               | Some (r, rs') \<Rightarrow>
                   (s\<lparr>rooms := rs'\<rparr>, [(sid, RoomCreated r)] @ emitRoomUpdate r))))"

definition onRoomJoin :: "server \<Rightarrow> string \<Rightarrow> string \<Rightarrow> server \<times> emission list" where
  "onRoomJoin s sid k =
     (if \<not> isRoomId k then (s, emitError sid ''Invalid room join payload.'')
      else case ensureIdentified (socketUserId s sid) of
        None \<Rightarrow> (s, emitError sid ''Identify first.'')
      | Some u \<Rightarrow>
         (case getRoom (rooms s) k of
            None \<Rightarrow> (s, emitError sid ''Room not found.'')
          | Some r0 \<Rightarrow>
             (let r = normalizeRoomState r0;
                  s1 = s\<lparr>rooms := putRoom r (rooms s)\<rparr>
              in if (case findRoomByUserId (rooms s1) u of
                       None \<Rightarrow> False
                     | Some (er, ero) \<Rightarrow> roomId er \<noteq> roomId r) then
                   (s1, emitError sid ''Already attached to another room.'')
                 else if hostUserId r = u then
                   (s1, emitError sid ''Host cannot join as client.'')
                 else if truthy (clientUserId r) \<and> clientUserId r \<noteq> Some u
                         \<and> truthy (clientSocketId r) then
                   (s1, emitError sid ''Room already has a different client.'')
                 else
                   (let r' = r\<lparr>clientUserId := Some u, clientSocketId := Some sid,
                                 controlActive := False, cameraActive := False\<rparr>
                    in (s1\<lparr>rooms := putRoom r' (rooms s1)\<rparr>,
                        [(sid, RoomJoined r')]
                        @ (if truthy (hostSocketId r')
                           then [(the (hostSocketId r'), RoomClientJoined r' u)] else [])
                        @ emitRoomUpdate r')))))"

definition onRejoinRoom :: "server \<Rightarrow> string \<Rightarrow> string \<Rightarrow> string \<Rightarrow> server \<times> emission list" where
  "onRejoinRoom s sid k roleName =
     (if \<not> (isRoomId k \<and> isRole roleName) then (s, emitError sid ''Invalid rejoin payload.'')
      else case ensureIdentified (socketUserId s sid) of
        None \<Rightarrow> (s, emitError sid ''Identify first.'')
      | Some u \<Rightarrow>
         (case getRoom (rooms s) k of
            None \<Rightarrow> (s, emitError sid ''Room not found for rejoin.'')
          | Some r0 \<Rightarrow>
             (let r = normalizeRoomState r0;
                  s1 = s\<lparr>rooms := putRoom r (rooms s)\<rparr>;
                  ro = roleOfString roleName
              in if ro = Host \<and> hostUserId r \<noteq> u then
                   (s1, emitError sid ''Only host owner can rejoin as host.'')
                 else if ro = Client \<and> hostUserId r = u then
                   (s1, emitError sid ''Host cannot rejoin as client.'')
                 else
                   (let r1 = (if ro = Client \<and> \<not> truthy (clientUserId r)
                              then r\<lparr>clientUserId := Some u\<rparr> else r);
                        s2 = s1\<lparr>rooms := putRoom r1 (rooms s1)\<rparr>
                    in if ro = Client \<and> clientUserId r1 \<noteq> Some u then
                         (s2, emitError sid ''Only assigned client can rejoin as client.'')
                       else
                         (let rs = restoreSession (Some u) sid r1 ro
                          in (s2\<lparr>rooms := putRoom (fst rs) (rooms s2)\<rparr>,
                              snd rs @ [(sid, RoomRejoined (fst rs) ro)]))))))"

definition onWebrtcSignal ::
  "server \<Rightarrow> string \<Rightarrow> string \<Rightarrow> signal option \<Rightarrow> server \<times> emission list" where
  "onWebrtcSignal s sid k sig =
     (if \<not> (isRoomId k \<and> isWebRtcSignal sig) then
        (s, emitError sid ''Invalid WebRTC signal payload.'')
      else case ensureIdentified (socketUserId s sid) of
        None \<Rightarrow> (s, emitError sid ''Identify first.'')
      | Some u \<Rightarrow>
         (case getRoom (rooms s) k of
            None \<Rightarrow> (s, emitError sid ''Room not found for signaling.'')
          | Some r0 \<Rightarrow>
             (let r = normalizeRoomState r0;
                  s1 = s\<lparr>rooms := putRoom r (rooms s)\<rparr>
              in case roleOfUserInRoom r u of
                   None \<Rightarrow> (s1, emitError sid ''Unauthorized signaling attempt.'')
                 | Some ro \<Rightarrow>
                     if \<not> isCurrentSocketForRole r ro sid then
                       (s1, emitError sid ''Stale socket signaling rejected.'')
                     else
                       (case roomPeerSocketId r ro of
                          None \<Rightarrow> (s1, [])
                        | Some target \<Rightarrow>
                            (s1, [(target, WebrtcSignal (roomId r) u (the sig))])))))"

definition onControlStatus ::
  "server \<Rightarrow> string \<Rightarrow> string \<Rightarrow> bool \<Rightarrow> server \<times> emission list" where
  "onControlStatus s sid k active =
     (if \<not> isRoomId k then (s, emitError sid ''Invalid control status payload.'')
      else case ensureIdentified (socketUserId s sid) of
        None \<Rightarrow> (s, emitError sid ''Identify first.'')
      | Some u \<Rightarrow>
         (case getRoom (rooms s) k of
            None \<Rightarrow> (s, emitError sid ''Room not found for control update.'')
          | Some r0 \<Rightarrow>
             (let r = normalizeRoomState r0;
                  s1 = s\<lparr>rooms := putRoom r (rooms s)\<rparr>
              in if \<not> canUserControlRoom r u \<or> hostSocketId r \<noteq> Some sid then
                   (s1, emitError sid ''Only active host can update control state.'')
                 else
                   (let r' = r\<lparr>controlActive := (active \<and> truthy (clientSocketId r))\<rparr>
                    in (s1\<lparr>rooms := putRoom r' (rooms s1)\<rparr>, emitRoomUpdate r')))))"

definition onCameraRequest :: "server \<Rightarrow> string \<Rightarrow> string \<Rightarrow> server \<times> emission list" where
  "onCameraRequest s sid k =
     (if \<not> isRoomId k then (s, emitError sid ''Invalid camera request payload.'')
      else case ensureIdentified (socketUserId s sid) of
        None \<Rightarrow> (s, emitError sid ''Identify first.'')
      | Some u \<Rightarrow>
         (case getRoom (rooms s) k of
            None \<Rightarrow> (s, emitError sid ''Room not found for camera request.'')
          | Some r0 \<Rightarrow>
             (let r = normalizeRoomState r0;
                  s1 = s\<lparr>rooms := putRoom r (rooms s)\<rparr>
              in if \<not> canUserControlRoom r u \<or> hostSocketId r \<noteq> Some sid then
                   (s1, emitError sid ''Only host can request camera.'')
                 else if \<not> truthy (clientSocketId r) then
                   (s1, emitError sid ''No connected client available.'')
                 else
                   (let targetUserId = socketUserId s1 (the (clientSocketId r))
                    in if \<not> truthy (clientUserId r) \<or> \<not> truthy targetUserId
                          \<or> targetUserId \<noteq> clientUserId r
                          \<or> targetUserId = Some (hostUserId r) then
                         (let r1 = r\<lparr>clientSocketId := None\<rparr>;
                              r2 = (if clientUserId r1 = Some (hostUserId r1)
                                    then r1\<lparr>clientUserId := None\<rparr> else r1);
                              r3 = r2\<lparr>controlActive := False, cameraActive := False\<rparr>
                          in (s1\<lparr>rooms := putRoom r3 (rooms s1)\<rparr>,
                              emitRoomUpdate r3
                              @ emitError sid ''No valid connected client available.''))
                       else
                         (s1, [(the (clientSocketId r),
                                CameraRequest (roomId r) (hostUserId r))])))))"

definition onCameraPermission ::
  "server \<Rightarrow> string \<Rightarrow> string \<Rightarrow> bool \<Rightarrow> server \<times> emission list" where
  "onCameraPermission s sid k granted =
     (if \<not> isRoomId k then (s, emitError sid ''Invalid camera permission payload.'')
      else case ensureIdentified (socketUserId s sid) of
        None \<Rightarrow> (s, emitError sid ''Identify first.'')
      | Some u \<Rightarrow>
         (case getRoom (rooms s) k of
            None \<Rightarrow> (s, emitError sid ''Room not found for camera permission.'')
          | Some r0 \<Rightarrow>
             (let r = normalizeRoomState r0;
                  s1 = s\<lparr>rooms := putRoom r (rooms s)\<rparr>
              in if \<not> canUserActAsClient r u \<or> clientSocketId r \<noteq> Some sid then
                   (s1, emitError sid ''Only active client can report camera permission.'')
                 else
                   (let r' = (if \<not> granted then r\<lparr>cameraActive := False\<rparr> else r)
                    in (s1\<lparr>rooms := putRoom r' (rooms s1)\<rparr>,
                        (if truthy (hostSocketId r')
                         then [(the (hostSocketId r'), CameraPermission (roomId r') granted)]
                         else [])
                        @ emitRoomUpdate r')))))"

definition onCameraState ::
  "server \<Rightarrow> string \<Rightarrow> string \<Rightarrow> bool \<Rightarrow> server \<times> emission list" where
  "onCameraState s sid k active =
     (if \<not> isRoomId k then (s, emitError sid ''Invalid camera state payload.'')
      else case ensureIdentified (socketUserId s sid) of
        None \<Rightarrow> (s, emitError sid ''Identify first.'')
      | Some u \<Rightarrow>
         (case getRoom (rooms s) k of
            None \<Rightarrow> (s, emitError sid ''Room not found for camera state.'')
          | Some r0 \<Rightarrow>
             (let r = normalizeRoomState r0;
                  s1 = s\<lparr>rooms := putRoom r (rooms s)\<rparr>
              in if \<not> canUserActAsClient r u \<or> clientSocketId r \<noteq> Some sid then
                   (s1, emitError sid ''Only active client can update camera state.'')
                 else
                   (let r' = r\<lparr>cameraActive := active\<rparr>
                    in (s1\<lparr>rooms := putRoom r' (rooms s1)\<rparr>, emitRoomUpdate r')))))"

definition onMediaKind ::
  "server \<Rightarrow> string \<Rightarrow> string \<Rightarrow> string \<Rightarrow> string \<Rightarrow> server \<times> emission list" where
  "onMediaKind s sid k streamId kind =
     (if \<not> isMediaKindPayload k streamId kind then
        (s, emitError sid ''Invalid media metadata payload.'')
      else case ensureIdentified (socketUserId s sid) of
        None \<Rightarrow> (s, emitError sid ''Identify first.'')
      | Some u \<Rightarrow>
         (case getRoom (rooms s) k of
            None \<Rightarrow> (s, emitError sid ''Room not found for media metadata.'')
          | Some r0 \<Rightarrow>
             (let r = normalizeRoomState r0;
                  s1 = s\<lparr>rooms := putRoom r (rooms s)\<rparr>
              in if \<not> canUserActAsClient r u \<or> clientSocketId r \<noteq> Some sid then
                   (s1, emitError sid ''Only active client can publish media metadata.'')
                 else
                   (s1, if truthy (hostSocketId r)
                        then [(the (hostSocketId r), MediaKind (roomId r) streamId kind)]
                        else []))))"

text \<open>
  The \<^verbatim>\<open>disconnect\<close> handler; the transport has taken the socket out of its table.
\<close>

definition onDisconnect :: "server \<Rightarrow> string \<Rightarrow> server \<times> emission list" where
  "onDisconnect s sid =
     (let s0 = s\<lparr>sockets := (sockets s)(sid := None)\<rparr>
      in case snd (removeSocket (rooms s) sid) of
           None \<Rightarrow> (s0, [])
         | Some (r, ro) \<Rightarrow>
             (let peerSocketId = (case ro of Host \<Rightarrow> clientSocketId r | Client \<Rightarrow> hostSocketId r)
              in (s0\<lparr>rooms := fst (removeSocket (rooms s) sid)\<rparr>,
                  (if truthy peerSocketId
                   then [(the peerSocketId, PeerDisconnected (roomId r) ro)] else [])
                  @ emitRoomUpdate r)))"

text \<open>
  The \<^verbatim>\<open>connection\<close> handler. The transport gives every connection a new, non-empty
  id; a connection event with the empty id or the id of a live socket does not occur,
  and the model leaves the server as it is.
\<close>

definition onConnect :: "server \<Rightarrow> string \<Rightarrow> server \<times> emission list" where
  "onConnect s sid =
     (if sid = [] \<or> sockets s sid \<noteq> None then (s, [])
      else (s\<lparr>sockets := (sockets s)(sid \<mapsto> None)\<rparr>, [(sid, SocketReady sid)]))"

text \<open>What a connected socket can send, with the payload fields the handlers read.\<close>

datatype request =
    Identify string
  | RoomCreate "nat \<Rightarrow> nat"
  | RoomJoin string
  | RejoinRoom string string
  | SendSignal string "signal option"
  | ControlStatus string bool
  | RequestCamera string
  | ReportCameraPermission string bool
  | ReportCameraState string bool
  | ReportMediaKind string string string

datatype event = Connect string | Receive string request | Disconnect string

fun handle :: "server \<Rightarrow> string \<Rightarrow> request \<Rightarrow> server \<times> emission list" where
  "handle s sid (Identify uid) = onIdentify s sid uid"
| "handle s sid (RoomCreate draw) = onRoomCreate s sid draw"
| "handle s sid (RoomJoin k) = onRoomJoin s sid k"
| "handle s sid (RejoinRoom k roleName) = onRejoinRoom s sid k roleName"
| "handle s sid (SendSignal k sig) = onWebrtcSignal s sid k sig"
| "handle s sid (ControlStatus k active) = onControlStatus s sid k active"
| "handle s sid (RequestCamera k) = onCameraRequest s sid k"
| "handle s sid (ReportCameraPermission k granted) = onCameraPermission s sid k granted"
| "handle s sid (ReportCameraState k active) = onCameraState s sid k active"
| "handle s sid (ReportMediaKind k streamId kind) = onMediaKind s sid k streamId kind"

text \<open>Only a live socket has handlers; an event named for any other id changes nothing.\<close>

fun step :: "server \<Rightarrow> event \<Rightarrow> server \<times> emission list" where
  "step s (Connect sid) = onConnect s sid"
| "step s (Receive sid req) = (if sockets s sid = None then (s, []) else handle s sid req)"
| "step s (Disconnect sid) = (if sockets s sid = None then (s, []) else onDisconnect s sid)"

definition run :: "server \<Rightarrow> event list \<Rightarrow> server" where
  "run s evs = foldl (\<lambda>s' ev. fst (step s' ev)) s evs"

definition newServer :: server where
  "newServer = \<lparr> rooms = [], sockets = Map.empty \<rparr>"

text \<open>Invariants 1 to 3 of a room.\<close>

definition roomInvariants :: "room \<Rightarrow> bool" where
  "roomInvariants r =
     (clientUserId r \<noteq> Some (hostUserId r)
      \<and> \<not> (clientSocketId r \<noteq> None \<and> clientUserId r = None)
      \<and> \<not> (hostSocketId r \<noteq> None \<and> hostSocketId r = clientSocketId r))"

text \<open>
  \<open>rebinds sid ev\<close>: the event is an identify with a valid payload on the connection
  \<open>sid\<close>, or the disconnect of \<open>sid\<close>.
\<close>

fun rebinds :: "string \<Rightarrow> event \<Rightarrow> bool" where
  "rebinds sid (Receive sid' (Identify uid)) = (sid' = sid \<and> isUserId uid)"
| "rebinds sid (Disconnect sid') = (sid' = sid)"
| "rebinds sid ev = False"

text \<open>
  The bindings of a user: every pair of a room and a role in which the user's id is
  recorded, in registry order.
\<close>

definition userBindings :: "room list \<Rightarrow> string \<Rightarrow> (string \<times> role) list" where
  "userBindings rs u =
     concat (map (\<lambda>r. (if hostUserId r = u then [(roomId r, Host)] else [])
                       @ (if clientUserId r = Some u then [(roomId r, Client)] else [])) rs)"

fun isRejoin :: "event \<Rightarrow> bool" where
  "isRejoin (Receive sid (RejoinRoom k roleName)) = True"
| "isRejoin ev = False"

text \<open>
  The registry invariant behind the single binding of a user: room codes are unique, no
  room has its host as client, and a user recorded in two rooms is recorded in the same
  room. \<open>shrinks r r'\<close>: the room \<open>r'\<close> is \<open>r\<close> with the same code and host, and the same
  client user or none.
\<close>

definition bound :: "room \<Rightarrow> string \<Rightarrow> bool" where
  "bound r u = (hostUserId r = u \<or> clientUserId r = Some u)"

definition singleBinding :: "room list \<Rightarrow> bool" where
  "singleBinding rs =
     (distinct (map roomId rs)
      \<and> (\<forall>r \<in> set rs. clientUserId r \<noteq> Some (hostUserId r))
      \<and> (\<forall>r \<in> set rs. \<forall>r' \<in> set rs. \<forall>u. bound r u \<and> bound r' u \<longrightarrow> roomId r = roomId r'))"

definition shrinks :: "room \<Rightarrow> room \<Rightarrow> bool" where
  "shrinks r r' =
     (roomId r' = roomId r \<and> hostUserId r' = hostUserId r
      \<and> (clientUserId r' = clientUserId r \<or> clientUserId r' = None))"

subsection \<open>Example sessions\<close>

text \<open>
  A host on connection \<open>sock-h\<close> opens room 482913 and a client on \<open>sock-c\<close> joins it.
  The states below are the servers after each event of \<open>pairingTrace\<close>.
\<close>

definition hostOnlyRoom :: room where
  "hostOnlyRoom =
     \<lparr> roomId = ''482913'', hostUserId = ''host-00001'', clientUserId = None,
       hostSocketId = Some ''sock-h'', clientSocketId = None,
       controlActive = False, cameraActive = False \<rparr>"

definition pairedRoom :: room where
  "pairedRoom =
     hostOnlyRoom\<lparr>clientUserId := Some ''client-001'', clientSocketId := Some ''sock-c''\<rparr>"

definition hostConnected :: server where
  "hostConnected = \<lparr> rooms = [], sockets = [''sock-h'' \<mapsto> None] \<rparr>"

definition hostIdentified :: server where
  "hostIdentified = \<lparr> rooms = [], sockets = [''sock-h'' \<mapsto> Some ''host-00001''] \<rparr>"

definition roomOpened :: server where
  "roomOpened =
     \<lparr> rooms = [hostOnlyRoom], sockets = [''sock-h'' \<mapsto> Some ''host-00001''] \<rparr>"

definition clientConnected :: server where
  "clientConnected =
     \<lparr> rooms = [hostOnlyRoom],
       sockets = [''sock-h'' \<mapsto> Some ''host-00001'', ''sock-c'' \<mapsto> None] \<rparr>"

definition clientIdentified :: server where
  "clientIdentified =
     \<lparr> rooms = [hostOnlyRoom],
       sockets = [''sock-h'' \<mapsto> Some ''host-00001'',
                  ''sock-c'' \<mapsto> Some ''client-001''] \<rparr>"

definition paired :: server where
  "paired =
     \<lparr> rooms = [pairedRoom],
       sockets = [''sock-h'' \<mapsto> Some ''host-00001'',
                  ''sock-c'' \<mapsto> Some ''client-001''] \<rparr>"

definition pairingTrace :: "event list" where
  "pairingTrace =
     [Connect ''sock-h'', Receive ''sock-h'' (Identify ''host-00001''),
      Receive ''sock-h'' (RoomCreate (\<lambda>attempt. 482913)),
      Connect ''sock-c'', Receive ''sock-c'' (Identify ''client-001''),
      Receive ''sock-c'' (RoomJoin ''482913'')]"

text \<open>The client reconnects on \<open>sock-c2\<close> while \<open>sock-c\<close> is still open.\<close>

definition clientReconnecting :: server where
  "clientReconnecting =
     \<lparr> rooms = [pairedRoom],
       sockets = [''sock-h'' \<mapsto> Some ''host-00001'',
                  ''sock-c'' \<mapsto> Some ''client-001'', ''sock-c2'' \<mapsto> None] \<rparr>"

definition superseded :: server where
  "superseded =
     \<lparr> rooms = [pairedRoom\<lparr>clientSocketId := Some ''sock-c2''\<rparr>],
       sockets = [''sock-h'' \<mapsto> Some ''host-00001'',
                  ''sock-c'' \<mapsto> Some ''client-001'',
                  ''sock-c2'' \<mapsto> Some ''client-001''] \<rparr>"

definition supersedingTrace :: "event list" where
  "supersedingTrace =
     pairingTrace @ [Connect ''sock-c2'', Receive ''sock-c2'' (Identify ''client-001'')]"

text \<open>The connection \<open>sock-c\<close> identifies again, as another user.\<close>

definition clientReidentified :: server where
  "clientReidentified =
     \<lparr> rooms = [pairedRoom],
       sockets = [''sock-h'' \<mapsto> Some ''host-00001'',
                  ''sock-c'' \<mapsto> Some ''other-user-9''] \<rparr>"

definition reidentifyingTrace :: "event list" where
  "reidentifyingTrace = pairingTrace @ [Receive ''sock-c'' (Identify ''other-user-9'')]"

text \<open>A third user arrives on \<open>sock-d\<close> while the client is attached.\<close>

definition rivalConnected :: server where
  "rivalConnected =
     \<lparr> rooms = [pairedRoom],
       sockets = [''sock-h'' \<mapsto> Some ''host-00001'',
                  ''sock-c'' \<mapsto> Some ''client-001'', ''sock-d'' \<mapsto> None] \<rparr>"

definition rivalIdentified :: server where
  "rivalIdentified =
     \<lparr> rooms = [pairedRoom],
       sockets = [''sock-h'' \<mapsto> Some ''host-00001'',
                  ''sock-c'' \<mapsto> Some ''client-001'',
                  ''sock-d'' \<mapsto> Some ''other-user-9''] \<rparr>"

definition rivalTrace :: "event list" where
  "rivalTrace =
     pairingTrace @ [Connect ''sock-d'', Receive ''sock-d'' (Identify ''other-user-9'')]"

text \<open>The client disconnects, and then the third user arrives and joins.\<close>

definition clientLeft :: server where
  "clientLeft =
     \<lparr> rooms = [pairedRoom\<lparr>clientSocketId := None\<rparr>],
       sockets = [''sock-h'' \<mapsto> Some ''host-00001''](''sock-c'' := None) \<rparr>"

definition lateRivalConnected :: server where
  "lateRivalConnected =
     \<lparr> rooms = [pairedRoom\<lparr>clientSocketId := None\<rparr>],
       sockets = ([''sock-h'' \<mapsto> Some ''host-00001''](''sock-c'' := None))
                   (''sock-d'' \<mapsto> None) \<rparr>"

definition lateRivalIdentified :: server where
  "lateRivalIdentified =
     \<lparr> rooms = [pairedRoom\<lparr>clientSocketId := None\<rparr>],
       sockets = ([''sock-h'' \<mapsto> Some ''host-00001''](''sock-c'' := None))
                   (''sock-d'' \<mapsto> Some ''other-user-9'') \<rparr>"

definition lateRivalJoined :: server where
  "lateRivalJoined =
     \<lparr> rooms = [pairedRoom\<lparr>clientUserId := Some ''other-user-9'',
                              clientSocketId := Some ''sock-d''\<rparr>],
       sockets = ([''sock-h'' \<mapsto> Some ''host-00001''](''sock-c'' := None))
                   (''sock-d'' \<mapsto> Some ''other-user-9'') \<rparr>"

definition lateRivalTrace :: "event list" where
  "lateRivalTrace =
     pairingTrace @ [Disconnect ''sock-c'', Connect ''sock-d'',
                     Receive ''sock-d'' (Identify ''other-user-9'')]"

text \<open>
  The host's connection identifies again, as another user, and joins the room it
  opened.
\<close>

definition hostReidentified :: server where
  "hostReidentified =
     \<lparr> rooms = [hostOnlyRoom], sockets = [''sock-h'' \<mapsto> Some ''client-001''] \<rparr>"

definition ownRoomJoined :: server where
  "ownRoomJoined =
     \<lparr> rooms = [hostOnlyRoom\<lparr>clientUserId := Some ''client-001'',
                                clientSocketId := Some ''sock-h''\<rparr>],
       sockets = [''sock-h'' \<mapsto> Some ''client-001''] \<rparr>"

definition ownRoomTrace :: "event list" where
  "ownRoomTrace =
     [Connect ''sock-h'', Receive ''sock-h'' (Identify ''host-00001''),
      Receive ''sock-h'' (RoomCreate (\<lambda>attempt. 482913)),
      Receive ''sock-h'' (Identify ''client-001''),
      Receive ''sock-h'' (RoomJoin ''482913'')]"

text \<open>
  A second host opens room 111111 on \<open>sock-y\<close>, and the host of room 482913 sends
  \<open>rejoin-room\<close> for it with the role client.
\<close>

definition secondRoom :: room where
  "secondRoom =
     \<lparr> roomId = ''111111'', hostUserId = ''second-host'', clientUserId = None,
       hostSocketId = Some ''sock-y'', clientSocketId = None,
       controlActive = False, cameraActive = False \<rparr>"

definition twoRooms :: server where
  "twoRooms =
     \<lparr> rooms = [hostOnlyRoom, secondRoom],
       sockets = [''sock-h'' \<mapsto> Some ''host-00001'', ''sock-y'' \<mapsto> Some ''second-host''] \<rparr>"

definition twoRoomsTrace :: "event list" where
  "twoRoomsTrace =
     [Connect ''sock-h'', Receive ''sock-h'' (Identify ''host-00001''),
      Receive ''sock-h'' (RoomCreate (\<lambda>attempt. 482913)),
      Connect ''sock-y'', Receive ''sock-y'' (Identify ''second-host''),
      Receive ''sock-y'' (RoomCreate (\<lambda>attempt. 111111))]"

section \<open>Peer negotiation controller (WebRtcManager)\<close>

text \<open>
  The part of a \<^verbatim>\<open>WebRtcManager\<close> that \<open>handleSignal\<close>, \<open>flushPendingIceCandidates\<close> and
  \<open>negotiateAsClient\<close> read and write. The \<^verbatim>\<open>RTCPeerConnection\<close> is what these methods
  see of it: its remote description (type and sdp) and the candidates it has accepted.
\<close>

record peerConn =
  remoteDescription :: "(string \<times> string) option"
  remoteCandidates :: "iceCandidate list"

text \<open>How an awaited promise settles.\<close>

datatype 'a promise = Resolves 'a | Rejects

datatype failure = BrowserError | UnableToCreateAnswer | UnableToCreateOffer

text \<open>
  The calls the manager makes on the connection and on its options, in order
  (\<open>ClosePeerConnection\<close> is \<^verbatim>\<open>peerConnection.close()\<close>), and the rejection of the promise
  that \<open>negotiateAsClient\<close> returned.
\<close>

datatype action =
    NewPeerConnection
  | CreateDataChannel
  | ClosePeerConnection
  | SetRemoteDescription string string
  | AddIceCandidate iceCandidate
  | CreateAnswer
  | CreateOffer
  | SetLocalDescription "string option"
  | OnSignal signal
  | NegotiationRejected failure

text \<open>
  A call of \<open>negotiateAsClient\<close> that is suspended inside its \<^verbatim>\<open>try\<close> block: at
  \<^verbatim>\<open>await connection.createOffer()\<close>, or at
  \<^verbatim>\<open>await connection.setLocalDescription(offer)\<close> with the \<^verbatim>\<open>offer.sdp\<close> it holds.
\<close>

datatype negotiation = AwaitingCreateOffer | AwaitingSetLocalDescription "string option"

record manager =
  peerConnection :: "peerConn option"
  pendingIceCandidates :: "iceCandidate list"
  isNegotiating :: bool
  hasQueuedRenegotiation :: bool
  suspended :: "negotiation list"
  actions :: "action list"

definition newManager :: manager where
  "newManager =
     \<lparr> peerConnection = None, pendingIceCandidates = [], isNegotiating = False,
       hasQueuedRenegotiation = False, suspended = [], actions = [] \<rparr>"

text \<open>
  The browser's side of the calls that \<open>handleSignal\<close> awaits: whether
  \<^verbatim>\<open>setRemoteDescription\<close> and \<^verbatim>\<open>addIceCandidate\<close> resolve, what \<^verbatim>\<open>createAnswer\<close>
  gives (the \<^verbatim>\<open>sdp\<close> of the answer), and whether \<^verbatim>\<open>setLocalDescription\<close> resolves.
\<close>

record rtc =
  setRemoteDescriptionOk :: "peerConn \<Rightarrow> string \<times> string \<Rightarrow> bool"
  addIceCandidateOk :: "(string \<times> string) option \<Rightarrow> iceCandidate \<Rightarrow> bool"
  createAnswerResult :: "peerConn \<Rightarrow> string option promise"
  setLocalDescriptionOk :: "peerConn \<Rightarrow> string option \<Rightarrow> bool"

text \<open>\<open>ensurePeerConnection\<close> returns the manager and its connection.\<close>

definition ensurePeerConnection :: "role option \<Rightarrow> manager \<Rightarrow> manager \<times> peerConn" where
  "ensurePeerConnection ro m =
     (case peerConnection m of
        Some c \<Rightarrow> (m, c)
      | None \<Rightarrow>
          (let c = \<lparr> remoteDescription = None, remoteCandidates = [] \<rparr>
           in (m\<lparr>peerConnection := Some c,
                  actions := actions m @ [NewPeerConnection]
                             @ (if ro = Some Client then [CreateDataChannel] else [])\<rparr>,
               c)))"

text \<open>
  The loop of \<open>flushPendingIceCandidates\<close>: each queued candidate is added; one that
  the connection rejects is skipped.
\<close>

fun addQueued :: "rtc \<Rightarrow> peerConn \<Rightarrow> iceCandidate list \<Rightarrow> peerConn" where
  "addQueued b c [] = c"
| "addQueued b c (x # queued) =
     addQueued b
       (if addIceCandidateOk b (remoteDescription c) x
        then c\<lparr>remoteCandidates := remoteCandidates c @ [x]\<rparr> else c)
       queued"

definition flushPendingIceCandidates :: "rtc \<Rightarrow> manager \<Rightarrow> manager" where
  "flushPendingIceCandidates b m =
     (case peerConnection m of
        None \<Rightarrow> m
      | Some c \<Rightarrow>
          if remoteDescription c = None then m
          else m\<lparr>pendingIceCandidates := [],
                 peerConnection := Some (addQueued b c (pendingIceCandidates m)),
                 actions := actions m @ map AddIceCandidate (pendingIceCandidates m)\<rparr>)"

text \<open>
  \<open>handleSignal\<close>, run to its end: the manager it leaves and the error it throws, if
  any.
\<close>

definition handleSignal ::
  "rtc \<Rightarrow> role option \<Rightarrow> manager \<Rightarrow> signal \<Rightarrow> manager \<times> failure option" where
  "handleSignal b ro m0 sig =
     (let m = fst (ensurePeerConnection ro m0);
          c = snd (ensurePeerConnection ro m0)
      in case sig of
           Offer sdp \<Rightarrow>
             (let m1 = m\<lparr>actions := actions m @ [SetRemoteDescription ''offer'' sdp]\<rparr>
              in if \<not> setRemoteDescriptionOk b c (''offer'', sdp) then (m1, Some BrowserError)
                 else
                   (let c1 = c\<lparr>remoteDescription := Some (''offer'', sdp)\<rparr>;
                        m2 = flushPendingIceCandidates b (m1\<lparr>peerConnection := Some c1\<rparr>);
                        c2 = addQueued b c1 (pendingIceCandidates m1);
                        m3 = m2\<lparr>actions := actions m2 @ [CreateAnswer]\<rparr>
                    in case createAnswerResult b c2 of
                         Rejects \<Rightarrow> (m3, Some BrowserError)
                       | Resolves answerSdp \<Rightarrow>
                           (let m4 = m3\<lparr>actions := actions m3
                                                     @ [SetLocalDescription answerSdp]\<rparr>
                            in if \<not> setLocalDescriptionOk b c2 answerSdp then
                                 (m4, Some BrowserError)
                               else if \<not> truthy answerSdp then
                                 (m4, Some UnableToCreateAnswer)
                               else
                                 (m4\<lparr>actions := actions m4
                                                  @ [OnSignal (Answer (the answerSdp))]\<rparr>,
                                  None))))
         | Answer sdp \<Rightarrow>
             (let m1 = m\<lparr>actions := actions m @ [SetRemoteDescription ''answer'' sdp]\<rparr>
              in if \<not> setRemoteDescriptionOk b c (''answer'', sdp) then (m1, Some BrowserError)
                 else
                   (let c1 = c\<lparr>remoteDescription := Some (''answer'', sdp)\<rparr>
                    in (flushPendingIceCandidates b (m1\<lparr>peerConnection := Some c1\<rparr>), None)))
         | IceCandidate x \<Rightarrow>
             if remoteDescription c \<noteq> None then
               (let m1 = m\<lparr>actions := actions m @ [AddIceCandidate x]\<rparr>
                in if addIceCandidateOk b (remoteDescription c) x then
                     (m1\<lparr>peerConnection :=
                           Some (c\<lparr>remoteCandidates := remoteCandidates c @ [x]\<rparr>)\<rparr>, None)
                   else (m1, Some BrowserError))
             else (m\<lparr>pendingIceCandidates := pendingIceCandidates m @ [x]\<rparr>, None))"

text \<open>Signals handled one after the other, each call run to its end.\<close>

definition handleSignals :: "rtc \<Rightarrow> role option \<Rightarrow> manager \<Rightarrow> signal list \<Rightarrow> manager" where
  "handleSignals b ro m sigs = foldl (\<lambda>m' sig. fst (handleSignal b ro m' sig)) m sigs"

text \<open>The candidates passed to \<^verbatim>\<open>addIceCandidate\<close>, in the order of the calls.\<close>

definition candidatesAdded :: "action list \<Rightarrow> iceCandidate list" where
  "candidatesAdded acts =
     concat (map (\<lambda>a. case a of AddIceCandidate x \<Rightarrow> [x] | _ \<Rightarrow> []) acts)"

definition acceptedCandidates :: "manager \<Rightarrow> iceCandidate list" where
  "acceptedCandidates m =
     (case peerConnection m of None \<Rightarrow> [] | Some c \<Rightarrow> remoteCandidates c)"

definition remoteDescriptionOf :: "manager \<Rightarrow> (string \<times> string) option" where
  "remoteDescriptionOf m =
     (case peerConnection m of None \<Rightarrow> None | Some c \<Rightarrow> remoteDescription c)"

definition hasRemoteDescription :: "manager \<Rightarrow> bool" where
  "hasRemoteDescription m = (remoteDescriptionOf m \<noteq> None)"

text \<open>
  \<open>negotiateAsClient\<close> up to its first \<^verbatim>\<open>await\<close>: \<open>ro\<close> is what \<^verbatim>\<open>roleProvider()\<close>
  returns at the call.
\<close>

definition negotiateAsClient :: "role option \<Rightarrow> manager \<Rightarrow> manager" where
  "negotiateAsClient ro m =
     (if ro \<noteq> Some Client then m
      else
        (let m1 = fst (ensurePeerConnection ro m)
         in if isNegotiating m1 then m1\<lparr>hasQueuedRenegotiation := True\<rparr>
            else m1\<lparr>isNegotiating := True,
                    suspended := suspended m1 @ [AwaitingCreateOffer],
                    actions := actions m1 @ [CreateOffer]\<rparr>))"

text \<open>The \<^verbatim>\<open>finally\<close> block, with the follow-up call it makes.\<close>

definition negotiateFinally :: "role option \<Rightarrow> manager \<Rightarrow> manager" where
  "negotiateFinally ro m =
     (let m1 = m\<lparr>isNegotiating := False\<rparr>
      in if hasQueuedRenegotiation m1
         then negotiateAsClient ro (m1\<lparr>hasQueuedRenegotiation := False\<rparr>)
         else m1)"

text \<open>
  The suspended call number \<open>i\<close> goes on when the promise it awaits settles: \<open>outcome\<close>
  is the settlement (for \<^verbatim>\<open>createOffer\<close> with the \<^verbatim>\<open>sdp\<close> of the offer), \<open>ro\<close> is the role
  when the \<^verbatim>\<open>finally\<close> block runs. An exception thrown in the \<^verbatim>\<open>try\<close> block leaves the
  call after the \<^verbatim>\<open>finally\<close> block has run, so the follow-up call comes before the
  rejection.
\<close>

definition rejectAfterFinally :: "role option \<Rightarrow> manager \<Rightarrow> failure \<Rightarrow> manager" where
  "rejectAfterFinally ro m e =
     (let m1 = negotiateFinally ro m
      in m1\<lparr>actions := actions m1 @ [NegotiationRejected e]\<rparr>)"

definition resumeNegotiation ::
  "role option \<Rightarrow> manager \<Rightarrow> nat \<Rightarrow> string option promise \<Rightarrow> manager" where
  "resumeNegotiation ro m i outcome =
     (if length (suspended m) \<le> i then m
      else
        (let others = take i (suspended m) @ drop (Suc i) (suspended m)
         in case suspended m ! i of
              AwaitingCreateOffer \<Rightarrow>
                (case outcome of
                   Rejects \<Rightarrow> rejectAfterFinally ro (m\<lparr>suspended := others\<rparr>) BrowserError
                 | Resolves sdp \<Rightarrow>
                     m\<lparr>suspended := (suspended m)[i := AwaitingSetLocalDescription sdp],
                       actions := actions m @ [SetLocalDescription sdp]\<rparr>)
            | AwaitingSetLocalDescription sdp \<Rightarrow>
                (case outcome of
                   Rejects \<Rightarrow> rejectAfterFinally ro (m\<lparr>suspended := others\<rparr>) BrowserError
                 | Resolves v \<Rightarrow>
                     if \<not> truthy sdp then
                       rejectAfterFinally ro (m\<lparr>suspended := others\<rparr>) UnableToCreateOffer
                     else
                       negotiateFinally ro
                         (m\<lparr>suspended := others,
                            actions := actions m @ [OnSignal (Offer (the sdp))]\<rparr>))))"

text \<open>
  \<open>closePeerConnection\<close>: the connection is closed and dropped, the candidate queue is
  emptied and both negotiation flags are reset. A call of \<open>negotiateAsClient\<close> that is
  suspended stays suspended: nothing cancels it.
\<close>

definition closePeerConnection :: "manager \<Rightarrow> manager" where
  "closePeerConnection m =
     m\<lparr>peerConnection := None,
       pendingIceCandidates := [],
       isNegotiating := False,
       hasQueuedRenegotiation := False,
       actions := actions m @ (if peerConnection m = None then [] else [ClosePeerConnection])\<rparr>"

text \<open>
  \<open>clearForPeerDisconnect\<close> and \<open>resetSession\<close>, as far as the manager's fields here go;
  the local and remote streams they also clear are not among them.
\<close>

definition clearForPeerDisconnect :: "manager \<Rightarrow> manager" where
  "clearForPeerDisconnect m = closePeerConnection m"

definition resetSession :: "manager \<Rightarrow> manager" where
  "resetSession m =
     (closePeerConnection m)\<lparr>pendingIceCandidates := [], isNegotiating := False,
                             hasQueuedRenegotiation := False\<rparr>"

text \<open>
  \<open>rebuildAfterReconnect\<close> up to its \<^verbatim>\<open>await\<close>: \<open>ro\<close> is what \<^verbatim>\<open>roleProvider()\<close> returns
  and \<open>hasLocalStream\<close> says whether \<^verbatim>\<open>localScreenStream\<close> or \<^verbatim>\<open>localCameraStream\<close> is set.
\<close>

definition rebuildAfterReconnect :: "role option \<Rightarrow> bool \<Rightarrow> manager \<Rightarrow> manager" where
  "rebuildAfterReconnect ro hasLocalStream m =
     (let m1 = closePeerConnection m
      in if ro = None then m1
         else
           (let m2 = fst (ensurePeerConnection ro m1)
            in if ro = Some Client \<and> hasLocalStream then negotiateAsClient ro m2 else m2))"

text \<open>
  What happens at an endpoint, as far as negotiation goes: a call of
  \<open>negotiateAsClient\<close>, the settling of the promise a suspended call awaits, and the
  three methods that close the connection.
\<close>

datatype negEvent =
    Negotiate "role option"
  | Settle nat "string option promise" "role option"
  | ClearForPeerDisconnect
  | ResetSession
  | RebuildAfterReconnect "role option" bool

fun negStep :: "manager \<Rightarrow> negEvent \<Rightarrow> manager" where
  "negStep m (Negotiate ro) = negotiateAsClient ro m"
| "negStep m (Settle i outcome ro) = resumeNegotiation ro m i outcome"
| "negStep m ClearForPeerDisconnect = clearForPeerDisconnect m"
| "negStep m ResetSession = resetSession m"
| "negStep m (RebuildAfterReconnect ro hasLocalStream) = rebuildAfterReconnect ro hasLocalStream m"

definition negRun :: "manager \<Rightarrow> negEvent list \<Rightarrow> manager" where
  "negRun m evs = foldl negStep m evs"





text \<open>The rounds started: the calls of \<^verbatim>\<open>createOffer\<close>.\<close>

definition roundsStarted :: "manager \<Rightarrow> nat" where
  "roundsStarted m = length (filter (\<lambda>a. a = CreateOffer) (actions m))"





text \<open>
  A browser that accepts every description and every candidate but the stale one, and
  three candidates for the examples.
\<close>

definition exampleRtc :: rtc where
  "exampleRtc =
     \<lparr> setRemoteDescriptionOk = (\<lambda>c d. True),
       addIceCandidateOk = (\<lambda>d x. candidate x \<noteq> ''candidate:stale''),
       createAnswerResult = (\<lambda>c. Resolves (Some ''v=0 answer'')),
       setLocalDescriptionOk = (\<lambda>c sdp. True) \<rparr>"

definition firstCandidate :: iceCandidate where
  "firstCandidate =
     \<lparr> candidate = ''candidate:1'', sdpMid = Some ''0'', sdpMLineIndex = Some 0,
       usernameFragment = None \<rparr>"

definition staleCandidate :: iceCandidate where
  "staleCandidate =
     \<lparr> candidate = ''candidate:stale'', sdpMid = Some ''0'', sdpMLineIndex = Some 0,
       usernameFragment = None \<rparr>"

definition lastCandidate :: iceCandidate where
  "lastCandidate =
     \<lparr> candidate = ''candidate:3'', sdpMid = Some ''0'', sdpMLineIndex = Some 0,
       usernameFragment = None \<rparr>"





section \<open>Theorems\<close>

subsection \<open>Registry and gateway: basic facts\<close>

lemma roomId_normalizeRoomState [simp]: "roomId (normalizeRoomState r) = roomId r"
  by (simp add: normalizeRoomState_def Let_def)

lemma hostUserId_normalizeRoomState [simp]: "hostUserId (normalizeRoomState r) = hostUserId r"
  by (simp add: normalizeRoomState_def Let_def)

lemma hostSocketId_normalizeRoomState [simp]:
  "hostSocketId (normalizeRoomState r) = hostSocketId r"
  by (simp add: normalizeRoomState_def Let_def)

lemma getRoom_SomeD: "getRoom rs k = Some r \<Longrightarrow> r \<in> set rs \<and> roomId r = k"
  unfolding getRoom_def by (induction rs) (auto split: if_splits)

lemma getRoom_putRoom:
  "getRoom rs k = Some r0 \<Longrightarrow> roomId r = k \<Longrightarrow> getRoom (putRoom r rs) k = Some r"
  unfolding getRoom_def putRoom_def by (induction rs) (auto split: if_splits)

lemma run_Cons: "run s (ev # evs) = run (fst (step s ev)) evs"
  by (simp add: run_def)

lemma run_Nil: "run s [] = s"
  by (simp add: run_def)

lemma run_append: "run s (evs @ evs') = run (run s evs) evs'"
  by (simp add: run_def)

subsection \<open>The example sessions, evaluated\<close>

lemmas example_defs =
  hostOnlyRoom_def pairedRoom_def hostConnected_def hostIdentified_def roomOpened_def
  clientConnected_def clientIdentified_def paired_def clientReconnecting_def superseded_def
  clientReidentified_def rivalConnected_def rivalIdentified_def clientLeft_def
  lateRivalConnected_def lateRivalIdentified_def lateRivalJoined_def hostReidentified_def
  ownRoomJoined_def

lemmas eval_defs =
  Let_def newServer_def onConnect_def onIdentify_def onRoomCreate_def onRoomJoin_def
  onDisconnect_def removeSocket_def clearSocket_def attachSocket_def restoreSession_def
  isUserId_def isUserIdChar_def isRoomId_def isDigit_def ensureIdentified_def socketUserId_def
  truthy_def createRoom_def ensureRoomId_def ensureRoomIdFrom.simps randomRoomId_def
  padStart_def natToString.simps getRoom_def putRoom_def normalizeRoomState_def
  emitRoomUpdate_def emitError_def roomPeerSocketId_def

lemma step_hostConnected: "fst (step newServer (Connect ''sock-h'')) = hostConnected"
  by (simp add: example_defs eval_defs)

lemma step_hostIdentified:
  "fst (step hostConnected (Receive ''sock-h'' (Identify ''host-00001''))) = hostIdentified"
  by (simp add: example_defs eval_defs)

lemma step_roomOpened:
  "fst (step hostIdentified (Receive ''sock-h'' (RoomCreate (\<lambda>attempt. 482913))))
   = roomOpened"
  by (simp add: example_defs eval_defs)

lemma step_clientConnected: "fst (step roomOpened (Connect ''sock-c'')) = clientConnected"
  by (simp add: example_defs eval_defs)

lemma step_clientIdentified:
  "fst (step clientConnected (Receive ''sock-c'' (Identify ''client-001'')))
   = clientIdentified"
  by (simp add: example_defs eval_defs)

lemma step_paired:
  "fst (step clientIdentified (Receive ''sock-c'' (RoomJoin ''482913''))) = paired"
  by (simp add: example_defs eval_defs)

lemma run_pairingTrace: "run newServer pairingTrace = paired"
  unfolding pairingTrace_def
  by (simp only: run_Cons run_Nil step_hostConnected step_hostIdentified step_roomOpened
      step_clientConnected step_clientIdentified step_paired)

lemma step_clientReconnecting: "fst (step paired (Connect ''sock-c2'')) = clientReconnecting"
  by (simp add: example_defs eval_defs)

lemma step_superseded:
  "fst (step clientReconnecting (Receive ''sock-c2'' (Identify ''client-001''))) = superseded"
proof -
  have "fst (onIdentify clientReconnecting ''sock-c2'' ''client-001'') = superseded"
    apply (simp add: onIdentify_def isUserId_def isUserIdChar_def clientReconnecting_def Let_def)
    apply (simp add: example_defs restoreSession_def normalizeRoomState_def attachSocket_def
        truthy_def Let_def roomPeerSocketId_def emitRoomUpdate_def putRoom_def)
    done
  then show ?thesis by (simp add: clientReconnecting_def)
qed

lemma run_supersedingTrace: "run newServer supersedingTrace = superseded"
  unfolding supersedingTrace_def run_append run_pairingTrace
  by (simp only: run_Cons run_Nil step_clientReconnecting step_superseded)

lemma step_clientReidentified:
  "fst (step paired (Receive ''sock-c'' (Identify ''other-user-9''))) = clientReidentified"
  by (simp add: example_defs eval_defs)

lemma run_reidentifyingTrace: "run newServer reidentifyingTrace = clientReidentified"
  unfolding reidentifyingTrace_def run_append run_pairingTrace
  by (simp only: run_Cons run_Nil step_clientReidentified)

lemma step_rivalConnected: "fst (step paired (Connect ''sock-d'')) = rivalConnected"
  by (simp add: example_defs eval_defs)

lemma step_rivalIdentified:
  "fst (step rivalConnected (Receive ''sock-d'' (Identify ''other-user-9''))) = rivalIdentified"
  by (simp add: example_defs eval_defs)

lemma run_rivalTrace: "run newServer rivalTrace = rivalIdentified"
  unfolding rivalTrace_def run_append run_pairingTrace
  by (simp only: run_Cons run_Nil step_rivalConnected step_rivalIdentified)

lemma step_clientLeft: "fst (step paired (Disconnect ''sock-c'')) = clientLeft"
  by (simp add: example_defs eval_defs)

lemma step_lateRivalConnected: "fst (step clientLeft (Connect ''sock-d'')) = lateRivalConnected"
  by (simp add: example_defs eval_defs)

lemma step_lateRivalIdentified:
  "fst (step lateRivalConnected (Receive ''sock-d'' (Identify ''other-user-9'')))
   = lateRivalIdentified"
  by (simp add: example_defs eval_defs)

lemma run_lateRivalTrace: "run newServer lateRivalTrace = lateRivalIdentified"
  unfolding lateRivalTrace_def run_append run_pairingTrace
  by (simp only: run_Cons run_Nil step_clientLeft step_lateRivalConnected
      step_lateRivalIdentified)

lemma step_lateRivalJoined:
  "fst (step lateRivalIdentified (Receive ''sock-d'' (RoomJoin ''482913''))) = lateRivalJoined"
  by (simp add: example_defs eval_defs)

lemma step_hostReidentified:
  "fst (step roomOpened (Receive ''sock-h'' (Identify ''client-001''))) = hostReidentified"
  by (simp add: example_defs eval_defs)

lemma step_ownRoomJoined:
  "fst (step hostReidentified (Receive ''sock-h'' (RoomJoin ''482913''))) = ownRoomJoined"
  by (simp add: example_defs eval_defs)

lemma run_ownRoomTrace: "run newServer ownRoomTrace = ownRoomJoined"
  unfolding ownRoomTrace_def
  by (simp only: run_Cons run_Nil step_hostConnected step_hostIdentified step_roomOpened
      step_hostReidentified step_ownRoomJoined)



subsection \<open>Remote-input protocol\<close>

text \<open>
  Claim C8. An inbound control-channel message whose \<open>senderUserId\<close> is not the room's
  recorded \<open>hostUserId\<close> has no effect at all: no mouse event is dispatched, no scroll
  is performed and no remote-media command callback is called. This holds for any role
  of the endpoint, any browser, and whether or not a host is recorded.
\<close>

theorem handleControlMessage_foreign_sender_no_effect:
  assumes "jsonParse w s = Some parsed"
    and "map_option JStr host \<noteq> Some (getProp parsed ''senderUserId'')"
  shows "handleControlMessage w role host (RawString s) = []"
proof (cases host)
  case None
  then show ?thesis using assms(1) by (simp add: handleControlMessage_def)
next
  case (Some h)
  with assms(2) have "getProp parsed ''senderUserId'' \<noteq> JStr h" by auto
  with Some assms(1) show ?thesis by (simp add: handleControlMessage_def)
qed

theorem handleControlMessage_foreign_sender_no_effect_witness:
  "jsonParse exampleBrowser intruderClickText = Some (clickFrom ''intruder-0001'')
   \<and> map_option JStr (Some ''host-user-0001'')
       \<noteq> Some (getProp (clickFrom ''intruder-0001'') ''senderUserId'')
   \<and> handleControlMessage exampleBrowser (Some Client) (Some ''host-user-0001'')
        (RawString intruderClickText) = []"
proof -
  have p: "jsonParse exampleBrowser intruderClickText = Some (clickFrom ''intruder-0001'')"
    by (simp add: exampleBrowser_def intruderClickText_def hostClickText_def)
  have q: "map_option JStr (Some ''host-user-0001'')
             \<noteq> Some (getProp (clickFrom ''intruder-0001'') ''senderUserId'')"
    by (simp add: getProp_def clickFrom_def)
  from handleControlMessage_foreign_sender_no_effect [OF p q] p q show ?thesis
    by blast
qed

text \<open>
  The same click sent by the recorded host, to an endpoint whose role is client, is
  carried out: the three mouse events reach the element under the scaled point.
\<close>

lemma handleControlMessage_host_click_example:
  "handleControlMessage exampleBrowser (Some Client) (Some ''host-user-0001'')
     (RawString hostClickText)
   = [DispatchMouseEvent 7 ''mousedown'' 640 180 0,
      DispatchMouseEvent 7 ''mouseup'' 640 180 0,
      DispatchMouseEvent 7 ''click'' 640 180 0]"
proof -
  have fx: "mathRound (clamp (1 / 2) 0 1 * 1280) = 640"
    unfolding mathRound_def clamp_def by (simp add: floor_eq_iff)
  have fy: "mathRound (clamp (1 / 4) 0 1 * 720) = 180"
    unfolding mathRound_def clamp_def by (simp add: floor_eq_iff)
  show ?thesis
    by (simp add: handleControlMessage_def exampleBrowser_def hostClickText_def
        clickFrom_def isInboundControlMessage_def isRecord_def isString_def
        isFiniteNumber_def strLength_def getProp_def numOf_def dispatchMouseEvent_def
        fx fy)
qed

text \<open>
  Claim C10. On an endpoint whose current role is not client, \<open>handleControlMessage\<close>
  does nothing for any inbound data-channel message, also for a well-formed message
  whose \<open>senderUserId\<close> is the room's \<open>hostUserId\<close>: no mouse event, no scroll, no
  media-command callback.
\<close>

theorem handleControlMessage_not_client_no_effect:
  "role \<noteq> Some Client \<Longrightarrow> handleControlMessage w role host rawData = []"
  by (simp add: handleControlMessage_def)

theorem handleControlMessage_not_client_no_effect_witness:
  "Some Host \<noteq> Some Client
   \<and> handleControlMessage exampleBrowser (Some Host) (Some ''host-user-0001'')
        (RawString hostClickText) = []"
  using handleControlMessage_not_client_no_effect
          [of "Some Host" exampleBrowser "Some ''host-user-0001''" "RawString hostClickText"]
  by simp

subsection \<open>Signal relay\<close>

text \<open>
  Claim C5. A \<open>webrtc:signal\<close> event from a connection that is not the socket registered
  for the caller's role in the room is rejected with an error sent to the caller alone,
  and nothing is relayed to the peer, although the caller's user id resolves to a role
  in the room. For a well-formed payload from an identified caller the error is the
  stale-socket one.
\<close>

theorem stale_socket_signal_rejected:
  assumes live: "sockets s sid = Some (Some u)"
    and room: "getRoom (rooms s) k = Some r0"
    and role: "roleOfUserInRoom (normalizeRoomState r0) u = Some ro"
    and stale: "\<not> isCurrentSocketForRole (normalizeRoomState r0) ro sid"
  shows "snd (step s (Receive sid (SendSignal k sig)))
         = [(sid, RoomError
               (if \<not> (isRoomId k \<and> isWebRtcSignal sig) then ''Invalid WebRTC signal payload.''
                else if u = [] then ''Identify first.''
                else ''Stale socket signaling rejected.''))]"
  using assms
  by (simp add: onWebrtcSignal_def ensureIdentified_def socketUserId_def truthy_def
      emitError_def Let_def)

theorem stale_socket_signal_rejected_witness:
  "run newServer supersedingTrace = superseded
   \<and> sockets superseded ''sock-c'' = Some (Some ''client-001'')
   \<and> getRoom (rooms superseded) ''482913''
       = Some (pairedRoom\<lparr>clientSocketId := Some ''sock-c2''\<rparr>)
   \<and> roleOfUserInRoom (normalizeRoomState (pairedRoom\<lparr>clientSocketId := Some ''sock-c2''\<rparr>))
         ''client-001'' = Some Client
   \<and> \<not> isCurrentSocketForRole
          (normalizeRoomState (pairedRoom\<lparr>clientSocketId := Some ''sock-c2''\<rparr>))
          Client ''sock-c''
   \<and> snd (step superseded
            (Receive ''sock-c'' (SendSignal ''482913'' (Some (Offer ''v=0'')))))
       = [(''sock-c'', RoomError ''Stale socket signaling rejected.'')]"
proof -
  let ?r = "pairedRoom\<lparr>clientSocketId := Some ''sock-c2''\<rparr>"
  have n: "normalizeRoomState ?r = ?r"
    by (simp add: example_defs normalizeRoomState_def truthy_def Let_def)
  have a: "sockets superseded ''sock-c'' = Some (Some ''client-001'')"
    by (simp add: superseded_def)
  have b: "getRoom (rooms superseded) ''482913'' = Some ?r"
    by (simp add: getRoom_def example_defs)
  have c: "roleOfUserInRoom (normalizeRoomState ?r) ''client-001'' = Some Client"
    unfolding n by (simp add: roleOfUserInRoom_def example_defs)
  have d: "\<not> isCurrentSocketForRole (normalizeRoomState ?r) Client ''sock-c''"
    unfolding n by (simp add: isCurrentSocketForRole_def example_defs)
  have v: "isRoomId ''482913'' \<and> isWebRtcSignal (Some (Offer ''v=0''))"
    by (simp add: isRoomId_def isDigit_def isWebRtcSignal_def)
  from stale_socket_signal_rejected [OF a b c d, of "Some (Offer ''v=0'')"] v
  have "snd (step superseded
            (Receive ''sock-c'' (SendSignal ''482913'' (Some (Offer ''v=0'')))))
       = [(''sock-c'', RoomError ''Stale socket signaling rejected.'')]"
    by simp
  with run_supersedingTrace a b c d show ?thesis by blast
qed

text \<open>
  Before the reconnect the same signal from \<open>sock-c\<close> is relayed to the host's socket.
\<close>

lemma current_socket_signal_relayed_example:
  "snd (step paired (Receive ''sock-c'' (SendSignal ''482913'' (Some (Offer ''v=0'')))))
   = [(''sock-h'', WebrtcSignal ''482913'' ''client-001'' (Offer ''v=0''))]"
  by (simp add: onWebrtcSignal_def example_defs isRoomId_def isDigit_def isWebRtcSignal_def
      ensureIdentified_def socketUserId_def truthy_def getRoom_def normalizeRoomState_def
      putRoom_def roleOfUserInRoom_def isCurrentSocketForRole_def roomPeerSocketId_def Let_def)

subsection \<open>Camera request\<close>

text \<open>
  Claim C9, as the code has it. A \<open>camera:request\<close> from the connection bound as host,
  for a room whose registered \<open>clientSocketId\<close> does not resolve to a live socket with the
  identity \<open>clientUserId\<close>, different from \<open>hostUserId\<close>: the room's \<open>clientSocketId\<close> is
  cleared and its recorded \<open>clientUserId\<close> is kept, \<open>controlActive\<close> and \<open>cameraActive\<close> are
  false afterwards, and the host receives the room update and an error; no
  \<open>camera:request\<close> is forwarded.
\<close>

theorem camera_request_stale_client_cleared:
  assumes live: "sockets s sid = Some (Some u)" and "u \<noteq> []" and "sid \<noteq> []"
    and "isRoomId k"
    and room: "getRoom (rooms s) k = Some r0"
    and host: "hostUserId (normalizeRoomState r0) = u"
              "hostSocketId (normalizeRoomState r0) = Some sid"
    and client: "clientSocketId (normalizeRoomState r0) = Some cs" "cs \<noteq> []"
    and invalid: "\<not> (\<exists>t. socketUserId s cs = Some t
                       \<and> clientUserId (normalizeRoomState r0) = Some t
                       \<and> t \<noteq> hostUserId (normalizeRoomState r0))"
  shows "\<exists>r'. getRoom (rooms (fst (step s (Receive sid (RequestCamera k))))) k = Some r'
              \<and> clientSocketId r' = None \<and> \<not> controlActive r' \<and> \<not> cameraActive r'
              \<and> clientUserId r' = clientUserId (normalizeRoomState r0)
              \<and> snd (step s (Receive sid (RequestCamera k)))
                  = [(sid, RoomUpdate r'),
                     (sid, RoomError ''No valid connected client available.'')]"
proof -
  let ?r = "normalizeRoomState r0"
  let ?t = "socketUserId s cs"
  have k: "roomId ?r = k" using getRoom_SomeD [OF room] by simp
  have cond: "\<not> truthy (clientUserId ?r) \<or> \<not> truthy ?t \<or> ?t \<noteq> clientUserId ?r
              \<or> ?t = Some (hostUserId ?r)"
    using invalid by (cases ?t) (auto simp: truthy_def)
  have nothost: "clientUserId ?r \<noteq> Some (hostUserId ?r)"
    using host(1) assms(2)
    by (auto simp: normalizeRoomState_def truthy_def Let_def split: if_splits)
  let ?r1 = "?r\<lparr>clientSocketId := None\<rparr>"
  let ?r2 = "if clientUserId ?r1 = Some (hostUserId ?r1)
             then ?r1\<lparr>clientUserId := None\<rparr> else ?r1"
  let ?r3 = "?r2\<lparr>controlActive := False, cameraActive := False\<rparr>"
  have k3: "roomId ?r3 = k" using k by simp
  have c3: "clientUserId ?r3 = clientUserId ?r" using nothost by simp
  have g1: "getRoom (putRoom ?r (rooms s)) k = Some ?r"
    by (rule getRoom_putRoom [OF room k])
  have g3: "getRoom (putRoom ?r3 (putRoom ?r (rooms s))) k = Some ?r3"
    by (rule getRoom_putRoom [OF g1 k3])
  have st: "step s (Receive sid (RequestCamera k))
            = (s\<lparr>rooms := putRoom ?r3 (putRoom ?r (rooms s))\<rparr>,
               emitRoomUpdate ?r3 @ emitError sid ''No valid connected client available.'')"
    using live assms(2,4) room host client cond
    by (simp add: onCameraRequest_def ensureIdentified_def socketUserId_def truthy_def
        canUserControlRoom_def Let_def)
  have em: "emitRoomUpdate ?r3 = [(sid, RoomUpdate ?r3)]"
    using host assms(3) by (simp add: emitRoomUpdate_def truthy_def)
  show ?thesis
    unfolding st using g3 em c3 by (intro exI [of _ ?r3]) (simp add: emitError_def)
qed

theorem camera_request_stale_client_cleared_witness:
  "run newServer reidentifyingTrace = clientReidentified
   \<and> sockets clientReidentified ''sock-h'' = Some (Some ''host-00001'')
   \<and> getRoom (rooms clientReidentified) ''482913'' = Some pairedRoom
   \<and> hostSocketId (normalizeRoomState pairedRoom) = Some ''sock-h''
   \<and> clientSocketId (normalizeRoomState pairedRoom) = Some ''sock-c''
   \<and> clientUserId (normalizeRoomState pairedRoom) = Some ''client-001''
   \<and> socketUserId clientReidentified ''sock-c'' = Some ''other-user-9''
   \<and> (\<exists>r'. getRoom (rooms (fst (step clientReidentified
                   (Receive ''sock-h'' (RequestCamera ''482913''))))) ''482913'' = Some r'
          \<and> clientSocketId r' = None \<and> \<not> controlActive r' \<and> \<not> cameraActive r'
          \<and> clientUserId r' = Some ''client-001''
          \<and> snd (step clientReidentified (Receive ''sock-h'' (RequestCamera ''482913'')))
              = [(''sock-h'', RoomUpdate r'),
                 (''sock-h'', RoomError ''No valid connected client available.'')])"
proof -
  have n: "normalizeRoomState pairedRoom = pairedRoom"
    by (simp add: example_defs normalizeRoomState_def truthy_def Let_def)
  have a: "sockets clientReidentified ''sock-h'' = Some (Some ''host-00001'')"
    by (simp add: clientReidentified_def)
  have b: "getRoom (rooms clientReidentified) ''482913'' = Some pairedRoom"
    by (simp add: getRoom_def example_defs)
  have h1: "hostUserId (normalizeRoomState pairedRoom) = ''host-00001''"
    unfolding n by (simp add: example_defs)
  have h2: "hostSocketId (normalizeRoomState pairedRoom) = Some ''sock-h''"
    unfolding n by (simp add: example_defs)
  have c1: "clientSocketId (normalizeRoomState pairedRoom) = Some ''sock-c''"
    unfolding n by (simp add: example_defs)
  have c2: "clientUserId (normalizeRoomState pairedRoom) = Some ''client-001''"
    unfolding n by (simp add: example_defs)
  have t: "socketUserId clientReidentified ''sock-c'' = Some ''other-user-9''"
    by (simp add: socketUserId_def clientReidentified_def)
  have inv: "\<not> (\<exists>t. socketUserId clientReidentified ''sock-c'' = Some t
                  \<and> clientUserId (normalizeRoomState pairedRoom) = Some t
                  \<and> t \<noteq> hostUserId (normalizeRoomState pairedRoom))"
    unfolding t c2 by simp
  have v: "isRoomId ''482913''"
    by (simp add: isRoomId_def isDigit_def)
  have ne: "''host-00001'' \<noteq> []" "''sock-h'' \<noteq> []" "''sock-c'' \<noteq> []"
    by simp_all
  from camera_request_stale_client_cleared [OF a ne(1) ne(2) v b h1 h2 c1 ne(3) inv]
  have "\<exists>r'. getRoom (rooms (fst (step clientReidentified
                   (Receive ''sock-h'' (RequestCamera ''482913''))))) ''482913'' = Some r'
          \<and> clientSocketId r' = None \<and> \<not> controlActive r' \<and> \<not> cameraActive r'
          \<and> clientUserId r' = Some ''client-001''
          \<and> snd (step clientReidentified (Receive ''sock-h'' (RequestCamera ''482913'')))
              = [(''sock-h'', RoomUpdate r'),
                 (''sock-h'', RoomError ''No valid connected client available.'')]"
    unfolding c2 .
  with run_reidentifyingTrace a b h2 c1 c2 t
  show ?thesis by blast
qed

text \<open>
  The claim as stated fails: the recorded client is not unbound. After the rejected
  request the room still has \<open>client-001\<close> as its \<open>clientUserId\<close>, so that user is still
  bound to the room as client; only the socket binding is gone.
\<close>

theorem camera_request_keeps_client_user_counterexample:
  "run newServer reidentifyingTrace = clientReidentified
   \<and> socketUserId clientReidentified ''sock-c'' = Some ''other-user-9''
   \<and> map clientUserId (rooms clientReidentified) = [Some ''client-001'']
   \<and> snd (step clientReidentified (Receive ''sock-h'' (RequestCamera ''482913'')))
       = [(''sock-h'', RoomUpdate (pairedRoom\<lparr>clientSocketId := None\<rparr>)),
          (''sock-h'', RoomError ''No valid connected client available.'')]
   \<and> rooms (fst (step clientReidentified (Receive ''sock-h'' (RequestCamera ''482913''))))
       = [pairedRoom\<lparr>clientSocketId := None\<rparr>]
   \<and> clientUserId (pairedRoom\<lparr>clientSocketId := None\<rparr>) = Some ''client-001''
   \<and> userBindings
        (rooms (fst (step clientReidentified (Receive ''sock-h'' (RequestCamera ''482913'')))))
        ''client-001''
       = [(''482913'', Client)]"
proof -
  have n: "normalizeRoomState pairedRoom = pairedRoom"
    by (simp add: example_defs normalizeRoomState_def truthy_def Let_def)
  have t: "socketUserId clientReidentified ''sock-c'' = Some ''other-user-9''"
    by (simp add: socketUserId_def clientReidentified_def)
  have u: "ensureIdentified (socketUserId clientReidentified ''sock-h'') = Some ''host-00001''"
    by (simp add: ensureIdentified_def socketUserId_def clientReidentified_def truthy_def)
  have g: "getRoom (rooms clientReidentified) ''482913'' = Some pairedRoom"
    by (simp add: getRoom_def example_defs)
  have v: "isRoomId ''482913''"
    by (simp add: isRoomId_def isDigit_def)
  have p: "putRoom pairedRoom (rooms clientReidentified) = [pairedRoom]"
    by (simp add: putRoom_def clientReidentified_def)
  have st: "step clientReidentified (Receive ''sock-h'' (RequestCamera ''482913''))
            = (clientReidentified\<lparr>rooms := [pairedRoom\<lparr>clientSocketId := None\<rparr>]\<rparr>,
               [(''sock-h'', RoomUpdate (pairedRoom\<lparr>clientSocketId := None\<rparr>)),
                (''sock-h'', RoomError ''No valid connected client available.'')])"
  proof -
    have live: "sockets clientReidentified ''sock-h'' \<noteq> None"
      by (simp add: clientReidentified_def)
    have "onCameraRequest clientReidentified ''sock-h'' ''482913''
            = (clientReidentified\<lparr>rooms := [pairedRoom\<lparr>clientSocketId := None\<rparr>]\<rparr>,
               [(''sock-h'', RoomUpdate (pairedRoom\<lparr>clientSocketId := None\<rparr>)),
                (''sock-h'', RoomError ''No valid connected client available.'')])"
      unfolding onCameraRequest_def Let_def
      apply (simp only: v u g n p simp_thms if_True if_False option.case)
      apply (simp add: socketUserId_def clientReidentified_def canUserControlRoom_def
          pairedRoom_def hostOnlyRoom_def truthy_def putRoom_def emitRoomUpdate_def
          emitError_def)
      done
    with live show ?thesis by simp
  qed
  have c: "map clientUserId (rooms clientReidentified) = [Some ''client-001'']"
    "clientUserId (pairedRoom\<lparr>clientSocketId := None\<rparr>) = Some ''client-001''"
    by (simp_all add: example_defs)
  have b: "userBindings [pairedRoom\<lparr>clientSocketId := None\<rparr>] ''client-001''
           = [(''482913'', Client)]"
    by (simp add: userBindings_def example_defs)
  show ?thesis
    unfolding st using run_reidentifyingTrace t c b by simp
qed

subsection \<open>Joining a room whose client slot is taken\<close>

text \<open>
  Claim C2, as the code has it. An identified user calls \<open>room:join\<close> on an existing room
  whose \<open>clientUserId\<close> is another user and whose \<open>clientSocketId\<close> is set: the join
  fails with one error sent to the caller (the caller is attached to another room, or is
  the host, or the room already has a different client) and the room keeps its client
  user and client socket.
\<close>

theorem join_rejected_while_other_client_attached:
  assumes live: "sockets s sid = Some (Some u)" and "u \<noteq> []"
    and "isRoomId k"
    and room: "getRoom (rooms s) k = Some r0"
    and other: "clientUserId (normalizeRoomState r0) = Some c" "c \<noteq> u" "c \<noteq> []"
    and attached: "clientSocketId (normalizeRoomState r0) = Some cs" "cs \<noteq> []"
  shows "snd (step s (Receive sid (RoomJoin k)))
           \<in> {[(sid, RoomError ''Already attached to another room.'')],
              [(sid, RoomError ''Host cannot join as client.'')],
              [(sid, RoomError ''Room already has a different client.'')]}
         \<and> (\<exists>r'. getRoom (rooms (fst (step s (Receive sid (RoomJoin k))))) k = Some r'
                \<and> clientUserId r' = Some c \<and> clientSocketId r' = Some cs)"
proof -
  let ?r = "normalizeRoomState r0"
  have k: "roomId ?r = k" using getRoom_SomeD [OF room] by simp
  have g1: "getRoom (putRoom ?r (rooms s)) k = Some ?r"
    by (rule getRoom_putRoom [OF room k])
  have st: "fst (step s (Receive sid (RoomJoin k))) = s\<lparr>rooms := putRoom ?r (rooms s)\<rparr>"
    using live assms(2,3) room other attached
    by (simp add: onRoomJoin_def ensureIdentified_def socketUserId_def truthy_def Let_def)
  have out: "snd (step s (Receive sid (RoomJoin k)))
           \<in> {[(sid, RoomError ''Already attached to another room.'')],
              [(sid, RoomError ''Host cannot join as client.'')],
              [(sid, RoomError ''Room already has a different client.'')]}"
    using live assms(2,3) room other attached
    by (simp add: onRoomJoin_def ensureIdentified_def socketUserId_def truthy_def Let_def
        emitError_def)
  show ?thesis using out g1 other(1) attached(1) unfolding st by simp
qed

theorem join_rejected_while_other_client_attached_witness:
  "run newServer rivalTrace = rivalIdentified
   \<and> sockets rivalIdentified ''sock-d'' = Some (Some ''other-user-9'')
   \<and> getRoom (rooms rivalIdentified) ''482913'' = Some pairedRoom
   \<and> clientUserId (normalizeRoomState pairedRoom) = Some ''client-001''
   \<and> clientSocketId (normalizeRoomState pairedRoom) = Some ''sock-c''
   \<and> snd (step rivalIdentified (Receive ''sock-d'' (RoomJoin ''482913'')))
       = [(''sock-d'', RoomError ''Room already has a different client.'')]
   \<and> (\<exists>r'. getRoom (rooms (fst (step rivalIdentified
                   (Receive ''sock-d'' (RoomJoin ''482913''))))) ''482913'' = Some r'
          \<and> clientUserId r' = Some ''client-001'' \<and> clientSocketId r' = Some ''sock-c'')"
proof -
  have n: "normalizeRoomState pairedRoom = pairedRoom"
    by (simp add: example_defs normalizeRoomState_def truthy_def Let_def)
  have a: "sockets rivalIdentified ''sock-d'' = Some (Some ''other-user-9'')"
    by (simp add: rivalIdentified_def)
  have b: "getRoom (rooms rivalIdentified) ''482913'' = Some pairedRoom"
    by (simp add: getRoom_def example_defs)
  have c1: "clientUserId (normalizeRoomState pairedRoom) = Some ''client-001''"
    unfolding n by (simp add: example_defs)
  have c2: "clientSocketId (normalizeRoomState pairedRoom) = Some ''sock-c''"
    unfolding n by (simp add: example_defs)
  have v: "isRoomId ''482913''"
    by (simp add: isRoomId_def isDigit_def)
  have ne: "''other-user-9'' \<noteq> []" "''client-001'' \<noteq> ''other-user-9''"
    "''client-001'' \<noteq> []" "''sock-c'' \<noteq> []"
    by simp_all
  have out: "snd (step rivalIdentified (Receive ''sock-d'' (RoomJoin ''482913'')))
       = [(''sock-d'', RoomError ''Room already has a different client.'')]"
    by (simp add: onRoomJoin_def example_defs isRoomId_def isDigit_def ensureIdentified_def
        socketUserId_def truthy_def getRoom_def normalizeRoomState_def putRoom_def
        emitError_def Let_def)
  from join_rejected_while_other_client_attached [OF a ne(1) v b c1 ne(2) ne(3) c2 ne(4)]
    run_rivalTrace a b c1 c2 out
  show ?thesis by blast
qed

text \<open>
  The claim as stated fails when the recorded client has no \<open>clientSocketId\<close>: after the
  client \<open>client-001\<close> has disconnected, the join of \<open>other-user-9\<close> is accepted and the
  client slot is rebound to that user.
\<close>

theorem join_replaces_disconnected_client_counterexample:
  "run newServer lateRivalTrace = lateRivalIdentified
   \<and> socketUserId lateRivalIdentified ''sock-d'' = Some ''other-user-9''
   \<and> map clientUserId (rooms lateRivalIdentified) = [Some ''client-001'']
   \<and> map clientSocketId (rooms lateRivalIdentified) = [None]
   \<and> fst (step lateRivalIdentified (Receive ''sock-d'' (RoomJoin ''482913''))) = lateRivalJoined
   \<and> map clientUserId (rooms lateRivalJoined) = [Some ''other-user-9'']
   \<and> map clientSocketId (rooms lateRivalJoined) = [Some ''sock-d'']
   \<and> hd (snd (step lateRivalIdentified (Receive ''sock-d'' (RoomJoin ''482913''))))
       = (''sock-d'', RoomJoined (pairedRoom\<lparr>clientUserId := Some ''other-user-9'',
                                              clientSocketId := Some ''sock-d''\<rparr>))"
proof -
  have a: "socketUserId lateRivalIdentified ''sock-d'' = Some ''other-user-9''"
    by (simp add: socketUserId_def lateRivalIdentified_def)
  have b: "map clientUserId (rooms lateRivalIdentified) = [Some ''client-001'']"
    "map clientSocketId (rooms lateRivalIdentified) = [None]"
    "map clientUserId (rooms lateRivalJoined) = [Some ''other-user-9'']"
    "map clientSocketId (rooms lateRivalJoined) = [Some ''sock-d'']"
    by (simp_all add: example_defs)
  have out: "hd (snd (step lateRivalIdentified (Receive ''sock-d'' (RoomJoin ''482913''))))
       = (''sock-d'', RoomJoined (pairedRoom\<lparr>clientUserId := Some ''other-user-9'',
                                              clientSocketId := Some ''sock-d''\<rparr>))"
    by (simp add: onRoomJoin_def example_defs isRoomId_def isDigit_def ensureIdentified_def
        socketUserId_def truthy_def getRoom_def normalizeRoomState_def putRoom_def
        emitError_def Let_def)
  from run_lateRivalTrace a b step_lateRivalJoined out show ?thesis by blast
qed

subsection \<open>The identity binding of a connection\<close>

lemma sockets_onRoomCreate: "sockets (fst (onRoomCreate s sid draw)) = sockets s"
  by (simp add: onRoomCreate_def Let_def split: option.splits prod.splits role.splits)

lemma sockets_onRoomJoin: "sockets (fst (onRoomJoin s sid k)) = sockets s"
  by (simp add: onRoomJoin_def Let_def split: option.splits prod.splits)

lemma sockets_onRejoinRoom: "sockets (fst (onRejoinRoom s sid k roleName)) = sockets s"
  by (simp add: onRejoinRoom_def Let_def split: option.splits prod.splits)

lemma sockets_onWebrtcSignal: "sockets (fst (onWebrtcSignal s sid k sig)) = sockets s"
  by (simp add: onWebrtcSignal_def Let_def split: option.splits prod.splits)

lemma sockets_onControlStatus: "sockets (fst (onControlStatus s sid k active)) = sockets s"
  by (simp add: onControlStatus_def Let_def split: option.splits prod.splits)

lemma sockets_onCameraRequest: "sockets (fst (onCameraRequest s sid k)) = sockets s"
  by (simp add: onCameraRequest_def Let_def split: option.splits prod.splits)

lemma sockets_onCameraPermission:
  "sockets (fst (onCameraPermission s sid k granted)) = sockets s"
  by (simp add: onCameraPermission_def Let_def split: option.splits prod.splits)

lemma sockets_onCameraState: "sockets (fst (onCameraState s sid k active)) = sockets s"
  by (simp add: onCameraState_def Let_def split: option.splits prod.splits)

lemma sockets_onMediaKind: "sockets (fst (onMediaKind s sid k streamId kind)) = sockets s"
  by (simp add: onMediaKind_def Let_def split: option.splits prod.splits)

lemma sockets_onIdentify:
  "sockets (fst (onIdentify s sid uid))
   = (if isUserId uid then (sockets s)(sid \<mapsto> Some uid) else sockets s)"
  by (simp add: onIdentify_def Let_def split: option.splits prod.splits)

lemma sockets_onDisconnect: "sockets (fst (onDisconnect s sid)) = (sockets s)(sid := None)"
  by (simp add: onDisconnect_def Let_def split: option.splits prod.splits)

lemma sockets_onConnect:
  "sockets s sid \<noteq> None \<Longrightarrow> sockets (fst (onConnect s sid')) sid = sockets s sid"
  by (auto simp: onConnect_def)

lemmas sockets_frame =
  sockets_onRoomCreate sockets_onRoomJoin sockets_onRejoinRoom sockets_onWebrtcSignal
  sockets_onControlStatus sockets_onCameraRequest sockets_onCameraPermission
  sockets_onCameraState sockets_onMediaKind sockets_onIdentify sockets_onDisconnect

lemma sockets_handle:
  "\<not> rebinds sid (Receive sid' req) \<Longrightarrow> sockets (fst (handle s sid' req)) sid = sockets s sid"
  by (cases req) (simp_all add: sockets_frame)

text \<open>
  Claim C3, as the code has it. On a live connection every \<open>identify\<close> event with a valid
  payload sets the identity binding to the payload's user id, whether or not the
  connection was bound before; every event that is neither such an \<open>identify\<close> on this
  connection nor its disconnect leaves the binding as it was.
\<close>

theorem identity_binding_follows_latest_identify:
  assumes "sockets s sid = Some b"
  shows "(isUserId uid
            \<longrightarrow> sockets (fst (step s (Receive sid (Identify uid)))) sid = Some (Some uid))
         \<and> (\<not> rebinds sid ev \<longrightarrow> sockets (fst (step s ev)) sid = Some b)"
proof (intro conjI impI)
  assume "isUserId uid"
  with assms show "sockets (fst (step s (Receive sid (Identify uid)))) sid = Some (Some uid)"
    by (simp add: sockets_onIdentify)
next
  assume nr: "\<not> rebinds sid ev"
  show "sockets (fst (step s ev)) sid = Some b"
  proof (cases ev)
    case (Connect sid')
    with assms show ?thesis by (simp add: sockets_onConnect)
  next
    case (Receive sid' req)
    with assms nr show ?thesis by (simp add: sockets_handle)
  next
    case (Disconnect sid')
    with assms nr show ?thesis by (simp add: sockets_onDisconnect)
  qed
qed

theorem identity_binding_follows_latest_identify_witness:
  "sockets roomOpened ''sock-h'' = Some (Some ''host-00001'')
   \<and> isUserId ''client-001''
   \<and> sockets (fst (step roomOpened (Receive ''sock-h'' (Identify ''client-001'')))) ''sock-h''
       = Some (Some ''client-001'')
   \<and> \<not> rebinds ''sock-h'' (Receive ''sock-h'' (RoomJoin ''482913''))
   \<and> sockets (fst (step roomOpened (Receive ''sock-h'' (RoomJoin ''482913'')))) ''sock-h''
       = Some (Some ''host-00001'')"
proof -
  have a: "sockets roomOpened ''sock-h'' = Some (Some ''host-00001'')"
    by (simp add: roomOpened_def)
  have v: "isUserId ''client-001''"
    by (simp add: isUserId_def isUserIdChar_def)
  have nr: "\<not> rebinds ''sock-h'' (Receive ''sock-h'' (RoomJoin ''482913''))"
    by simp
  from identity_binding_follows_latest_identify
         [OF a, of "''client-001''" "Receive ''sock-h'' (RoomJoin ''482913'')"] a v nr
  show ?thesis by blast
qed

text \<open>
  The claim as stated fails: a second \<open>identify\<close> on the same connection, with another
  user id, replaces the binding.
\<close>

theorem second_identify_rebinds_counterexample:
  "sockets (run newServer
              [Connect ''sock-h'', Receive ''sock-h'' (Identify ''host-00001'')]) ''sock-h''
     = Some (Some ''host-00001'')
   \<and> sockets (run newServer
                [Connect ''sock-h'', Receive ''sock-h'' (Identify ''host-00001''),
                 Receive ''sock-h'' (Identify ''client-001'')]) ''sock-h''
       = Some (Some ''client-001'')
   \<and> ''client-001'' \<noteq> ''host-00001''"
proof -
  have r2: "run newServer [Connect ''sock-h'', Receive ''sock-h'' (Identify ''host-00001'')]
            = hostIdentified"
    by (simp only: run_Cons run_Nil step_hostConnected step_hostIdentified)
  have r3: "run newServer [Connect ''sock-h'', Receive ''sock-h'' (Identify ''host-00001''),
                           Receive ''sock-h'' (Identify ''client-001'')]
            = fst (step hostIdentified (Receive ''sock-h'' (Identify ''client-001'')))"
    by (simp only: run_Cons run_Nil step_hostConnected step_hostIdentified)
  have a: "sockets hostIdentified ''sock-h'' = Some (Some ''host-00001'')"
    by (simp add: hostIdentified_def)
  have b: "sockets (fst (step hostIdentified (Receive ''sock-h'' (Identify ''client-001''))))
             ''sock-h'' = Some (Some ''client-001'')"
    by (simp add: sockets_onIdentify hostIdentified_def isUserId_def isUserIdChar_def)
  show ?thesis unfolding r2 r3 using a b by simp
qed

subsection \<open>Room invariants\<close>

text \<open>
  \<open>normalizeRoomState\<close> restores invariants 1 to 3 of a room whose ids are not empty
  strings, and whenever it clears a part of the client binding it resets both activity
  flags.
\<close>

lemma normalizeRoomState_establishes_invariants:
  assumes "hostUserId r \<noteq> []" and "clientUserId r \<noteq> Some []"
    and "hostSocketId r \<noteq> Some []" and "clientSocketId r \<noteq> Some []"
  shows "roomInvariants (normalizeRoomState r)"
  using assms
  by (auto simp: roomInvariants_def normalizeRoomState_def truthy_def Let_def
      split: option.splits)

lemma normalizeRoomState_resets_flags:
  assumes "clientUserId (normalizeRoomState r) \<noteq> clientUserId r
           \<or> clientSocketId (normalizeRoomState r) \<noteq> clientSocketId r"
  shows "\<not> controlActive (normalizeRoomState r) \<and> \<not> cameraActive (normalizeRoomState r)"
  using assms
  by (auto simp: normalizeRoomState_def Let_def split: if_splits)

text \<open>
  Claim C1. Every room satisfies invariants 1 to 3 after every mutating gateway
  operation. The code breaks this in \<open>room:join\<close>: a connection that opened a room as
  host, identified again as another user and joined that room is recorded as the
  socket of both roles, and the handler does not normalize after binding it.
\<close>

theorem room_join_binds_host_socket_as_client:
  "run newServer ownRoomTrace = ownRoomJoined
   \<and> map hostSocketId (rooms ownRoomJoined) = [Some ''sock-h'']
   \<and> map clientSocketId (rooms ownRoomJoined) = [Some ''sock-h'']
   \<and> map roomInvariants (rooms ownRoomJoined) = [False]"
proof -
  have "map hostSocketId (rooms ownRoomJoined) = [Some ''sock-h'']"
    "map clientSocketId (rooms ownRoomJoined) = [Some ''sock-h'']"
    "map roomInvariants (rooms ownRoomJoined) = [False]"
    by (simp_all add: example_defs roomInvariants_def)
  with run_ownRoomTrace show ?thesis by blast
qed

subsection \<open>One binding per user\<close>

lemma shrinks_refl [simp]: "shrinks r r"
  by (simp add: shrinks_def)

lemma shrinks_trans: "shrinks r r' \<Longrightarrow> shrinks r' r'' \<Longrightarrow> shrinks r r''"
  by (auto simp: shrinks_def)

lemma shrinks_normalizeRoomState [simp]: "shrinks r (normalizeRoomState r)"
  by (simp add: shrinks_def normalizeRoomState_def Let_def)

lemma shrinks_attachSocket [simp]: "shrinks r (attachSocket r ro sid)"
  by (simp add: shrinks_def attachSocket_def split: role.splits)

lemma shrinks_clearSocket [simp]: "shrinks r (clearSocket r ro)"
  by (simp add: shrinks_def clearSocket_def split: role.splits)

lemma shrinks_restoreSession [simp]: "shrinks r (fst (restoreSession uid sid r ro))"
proof -
  have "shrinks r (normalizeRoomState (attachSocket (normalizeRoomState r) ro sid))"
    by (blast intro: shrinks_trans shrinks_normalizeRoomState shrinks_attachSocket)
  then show ?thesis by (simp add: restoreSession_def Let_def)
qed

lemma getRoom_None_iff: "getRoom rs k = None \<longleftrightarrow> k \<notin> roomId ` set rs"
  unfolding getRoom_def by (auto simp: find_None_iff)

lemma getRoom_member:
  "distinct (map roomId rs) \<Longrightarrow> r \<in> set rs \<Longrightarrow> getRoom rs (roomId r) = Some r"
  unfolding getRoom_def by (induction rs) (auto simp: image_iff)

lemma map_roomId_putRoom [simp]: "map roomId (putRoom r rs) = map roomId rs"
  unfolding putRoom_def by (induction rs) auto

lemma set_putRoom:
  "x \<in> set (putRoom r rs) \<Longrightarrow> x = r \<or> (x \<in> set rs \<and> roomId x \<noteq> roomId r)"
  unfolding putRoom_def by auto

lemma findRoomByUserId_None: "findRoomByUserId rs u = None \<Longrightarrow> x \<in> set rs \<Longrightarrow> \<not> bound x u"
  by (induction rs) (auto simp: bound_def split: if_splits)

lemma findRoomByUserId_Some:
  "findRoomByUserId rs u = Some (r, ro) \<Longrightarrow> r \<in> set rs \<and> bound r u"
  by (induction rs) (auto simp: bound_def split: if_splits)

lemma findRoomBySocketId_Some: "findRoomBySocketId rs sid = Some (r, ro) \<Longrightarrow> r \<in> set rs"
  by (induction rs) (auto split: if_splits)

text \<open>Writing back a room whose client, if any, is recorded in no other room.\<close>

lemma singleBinding_putRoom:
  assumes inv: "singleBinding rs" and mem: "r \<in> set rs"
    and same: "roomId r' = roomId r" "hostUserId r' = hostUserId r"
    and nohost: "clientUserId r' \<noteq> Some (hostUserId r')"
    and free: "\<And>u x. clientUserId r' = Some u \<Longrightarrow> x \<in> set rs \<Longrightarrow> bound x u
                 \<Longrightarrow> roomId x = roomId r"
  shows "singleBinding (putRoom r' rs)"
proof -
  have d: "distinct (map roomId rs)"
    and nh: "\<And>x. x \<in> set rs \<Longrightarrow> clientUserId x \<noteq> Some (hostUserId x)"
    and one: "\<And>x y u. x \<in> set rs \<Longrightarrow> y \<in> set rs \<Longrightarrow> bound x u \<Longrightarrow> bound y u
                \<Longrightarrow> roomId x = roomId y"
    using inv unfolding singleBinding_def by blast+
  have old: "\<And>x u. x \<in> set rs \<Longrightarrow> bound x u \<Longrightarrow> bound r' u \<Longrightarrow> roomId x = roomId r'"
  proof -
    fix x u assume x: "x \<in> set rs" "bound x u" and b: "bound r' u"
    from b consider "hostUserId r' = u" | "clientUserId r' = Some u"
      unfolding bound_def by blast
    then show "roomId x = roomId r'"
    proof cases
      case 1
      then have "bound r u" using same by (simp add: bound_def)
      with one [OF x(1) mem x(2)] same show ?thesis by simp
    next
      case 2
      from free [OF 2 x] same show ?thesis by simp
    qed
  qed
  have "\<And>x. x \<in> set (putRoom r' rs) \<Longrightarrow> clientUserId x \<noteq> Some (hostUserId x)"
    using nh nohost by (blast dest: set_putRoom)
  moreover have "\<And>x y u. x \<in> set (putRoom r' rs) \<Longrightarrow> y \<in> set (putRoom r' rs)
                   \<Longrightarrow> bound x u \<Longrightarrow> bound y u \<Longrightarrow> roomId x = roomId y"
  proof -
    fix x y u
    assume x: "x \<in> set (putRoom r' rs)" and y: "y \<in> set (putRoom r' rs)"
      and bx: "bound x u" and bu: "bound y u"
    from set_putRoom [OF x] set_putRoom [OF y] show "roomId x = roomId y"
      using bx bu old one by metis
  qed
  ultimately show ?thesis
    unfolding singleBinding_def using d by (simp, blast)
qed

lemma singleBinding_shrinks:
  assumes inv: "singleBinding rs" and mem: "r \<in> set rs" and sh: "shrinks r r'"
  shows "singleBinding (putRoom r' rs)"
proof (rule singleBinding_putRoom [OF inv mem])
  show "roomId r' = roomId r" "hostUserId r' = hostUserId r"
    using sh by (simp_all add: shrinks_def)
  have nh: "clientUserId r \<noteq> Some (hostUserId r)"
    using inv mem unfolding singleBinding_def by blast
  then show "clientUserId r' \<noteq> Some (hostUserId r')"
    using sh by (auto simp: shrinks_def)
  fix u x assume c: "clientUserId r' = Some u" and x: "x \<in> set rs" "bound x u"
  from c sh have "bound r u" by (auto simp: shrinks_def bound_def)
  with inv x mem show "roomId x = roomId r"
    unfolding singleBinding_def by blast
qed

lemma member_putRoom:
  "r \<in> set rs \<Longrightarrow> roomId r' = roomId r \<Longrightarrow> r' \<in> set (putRoom r' rs)"
  unfolding putRoom_def by (auto simp: image_iff)

text \<open>The common shape of a handler: look a room up, normalize it, write it back.\<close>

lemma singleBinding_normalized:
  assumes "singleBinding rs" and "getRoom rs k = Some r0"
  shows "singleBinding (putRoom (normalizeRoomState r0) rs)"
    and "normalizeRoomState r0 \<in> set (putRoom (normalizeRoomState r0) rs)"
proof -
  have m: "r0 \<in> set rs" using getRoom_SomeD [OF assms(2)] by simp
  show "singleBinding (putRoom (normalizeRoomState r0) rs)"
    by (rule singleBinding_shrinks [OF assms(1) m]) simp
  show "normalizeRoomState r0 \<in> set (putRoom (normalizeRoomState r0) rs)"
    by (rule member_putRoom [OF m]) simp
qed

lemma singleBinding_normalized_then:
  assumes "singleBinding rs" and "getRoom rs k = Some r0"
    and "shrinks (normalizeRoomState r0) r'"
  shows "singleBinding (putRoom r' (putRoom (normalizeRoomState r0) rs))"
  by (rule singleBinding_shrinks [OF singleBinding_normalized [OF assms(1,2)] assms(3)])

lemma singleBinding_onControlStatus:
  "singleBinding (rooms s) \<Longrightarrow> singleBinding (rooms (fst (onControlStatus s sid k active)))"
  by (auto simp: onControlStatus_def Let_def shrinks_def
      split: option.splits
      intro: singleBinding_normalized(1) singleBinding_normalized_then)

lemma singleBinding_onCameraState:
  "singleBinding (rooms s) \<Longrightarrow> singleBinding (rooms (fst (onCameraState s sid k active)))"
  by (auto simp: onCameraState_def Let_def shrinks_def
      split: option.splits
      intro: singleBinding_normalized(1) singleBinding_normalized_then)

lemma singleBinding_onCameraPermission:
  "singleBinding (rooms s) \<Longrightarrow> singleBinding (rooms (fst (onCameraPermission s sid k granted)))"
  by (auto simp: onCameraPermission_def Let_def shrinks_def
      split: option.splits
      intro: singleBinding_normalized(1) singleBinding_normalized_then)

lemma singleBinding_onMediaKind:
  "singleBinding (rooms s) \<Longrightarrow> singleBinding (rooms (fst (onMediaKind s sid k streamId kind)))"
  by (auto simp: onMediaKind_def Let_def
      split: option.splits
      intro: singleBinding_normalized(1))

lemma singleBinding_onWebrtcSignal:
  "singleBinding (rooms s) \<Longrightarrow> singleBinding (rooms (fst (onWebrtcSignal s sid k sig)))"
  by (auto simp: onWebrtcSignal_def Let_def
      split: option.splits
      intro: singleBinding_normalized(1))

lemma singleBinding_onCameraRequest:
  "singleBinding (rooms s) \<Longrightarrow> singleBinding (rooms (fst (onCameraRequest s sid k)))"
  by (auto simp: onCameraRequest_def Let_def shrinks_def
      split: option.splits
      intro: singleBinding_normalized(1) singleBinding_normalized_then)

lemma singleBinding_onIdentify:
  assumes "singleBinding (rooms s)"
  shows "singleBinding (rooms (fst (onIdentify s sid uid)))"
proof (cases "isUserId uid")
  case False
  then show ?thesis using assms by (simp add: onIdentify_def)
next
  case True
  show ?thesis
  proof (cases "findRoomByUserId (rooms s) uid")
    case None
    with True assms show ?thesis by (simp add: onIdentify_def Let_def)
  next
    case (Some found)
    obtain r ro where f: "found = (r, ro)" by (cases found)
    have m: "r \<in> set (rooms s)" using findRoomByUserId_Some Some f by blast
    have "singleBinding (putRoom (fst (restoreSession (Some uid) sid r ro)) (rooms s))"
      by (rule singleBinding_shrinks [OF assms m]) simp
    with True Some f show ?thesis by (simp add: onIdentify_def Let_def)
  qed
qed

lemma ensureRoomIdFrom_fresh:
  "ensureRoomIdFrom draw rs attempts = Some k \<Longrightarrow> getRoom rs k = None"
proof (induction draw rs attempts rule: ensureRoomIdFrom.induct)
  case (1 draw rs attempts)
  let ?k = "randomRoomId (draw attempts)"
  note unfold = ensureRoomIdFrom.simps [of draw rs attempts]
  show ?case
  proof (cases "attempts < 1000000")
    case False
    with "1.prems" unfold show ?thesis by simp
  next
    case bounded: True
    show ?thesis
    proof (cases "isRoomId ?k")
      case False
      with bounded "1.prems" unfold
      have "ensureRoomIdFrom draw rs (attempts + 1) = Some k" by (simp add: Let_def)
      with "1.IH"(1) [OF bounded refl False] show ?thesis .
    next
      case valid: True
      show ?thesis
      proof (cases "getRoom rs ?k = None")
        case True
        with bounded valid "1.prems" unfold have "k = ?k" by (simp add: Let_def)
        with True show ?thesis by simp
      next
        case False
        with bounded valid "1.prems" unfold
        have "ensureRoomIdFrom draw rs (attempts + 1) = Some k" by (simp add: Let_def)
        moreover have "\<not> \<not> isRoomId ?k" using valid by simp
        ultimately show ?thesis using "1.IH"(2) [OF bounded refl _ False] by blast
      qed
    qed
  qed
qed

lemma singleBinding_createRoom:
  assumes inv: "singleBinding rs" and free: "findRoomByUserId rs u = None"
    and cr: "createRoom draw rs u sid = Some (r, rs')"
  shows "singleBinding rs'"
proof -
  from cr obtain k where k: "ensureRoomId draw rs = Some k"
    and r: "r = \<lparr> roomId = k, hostUserId = u, clientUserId = None,
                  hostSocketId = Some sid, clientSocketId = None,
                  controlActive = False, cameraActive = False \<rparr>"
    and rs': "rs' = rs @ [r]"
    by (auto simp: createRoom_def Let_def split: option.splits)
  have fresh: "k \<notin> roomId ` set rs"
    using ensureRoomIdFrom_fresh k unfolding ensureRoomId_def getRoom_None_iff by blast
  have nb: "\<And>x. x \<in> set rs \<Longrightarrow> \<not> bound x u"
    using findRoomByUserId_None [OF free] by blast
  have br: "\<And>v. bound r v \<Longrightarrow> v = u" by (simp add: r bound_def)
  have d: "distinct (map roomId rs)"
    and nh: "\<And>x. x \<in> set rs \<Longrightarrow> clientUserId x \<noteq> Some (hostUserId x)"
    and one: "\<And>x y v. x \<in> set rs \<Longrightarrow> y \<in> set rs \<Longrightarrow> bound x v \<Longrightarrow> bound y v
                \<Longrightarrow> roomId x = roomId y"
    using inv unfolding singleBinding_def by blast+
  have "distinct (map roomId rs')" using d fresh by (simp add: rs' r)
  moreover have "\<And>x. x \<in> set rs' \<Longrightarrow> clientUserId x \<noteq> Some (hostUserId x)"
    using nh by (auto simp: rs' r)
  moreover have "\<And>x y v. x \<in> set rs' \<Longrightarrow> y \<in> set rs' \<Longrightarrow> bound x v \<Longrightarrow> bound y v
                   \<Longrightarrow> roomId x = roomId y"
    using one nb br unfolding rs' by (metis Un_iff empty_iff empty_set insert_iff list.simps(15) set_append)
  ultimately show ?thesis unfolding singleBinding_def by blast
qed

lemma singleBinding_onRoomCreate:
  assumes "singleBinding (rooms s)"
  shows "singleBinding (rooms (fst (onRoomCreate s sid draw)))"
proof (cases "ensureIdentified (socketUserId s sid)")
  case None
  then show ?thesis using assms by (simp add: onRoomCreate_def)
next
  case (Some u)
  show ?thesis
  proof (cases "findRoomByUserId (rooms s) u")
    case None
    show ?thesis
    proof (cases "createRoom draw (rooms s) u sid")
      case None
      with Some \<open>findRoomByUserId (rooms s) u = None\<close> assms show ?thesis
        by (simp add: onRoomCreate_def)
    next
      case (Some made)
      obtain r rs' where m: "made = (r, rs')" by (cases made)
      from singleBinding_createRoom [OF assms \<open>findRoomByUserId (rooms s) u = None\<close>]
        Some m have "singleBinding rs'" by simp
      with Some m \<open>findRoomByUserId (rooms s) u = None\<close>
        \<open>ensureIdentified (socketUserId s sid) = Some u\<close>
      show ?thesis by (simp add: onRoomCreate_def)
    qed
  next
    case (Some found)
    obtain r ro where f: "found = (r, ro)" by (cases found)
    have m: "r \<in> set (rooms s)" using findRoomByUserId_Some Some f by blast
    have "singleBinding (putRoom (fst (restoreSession (Some u) sid r Host)) (rooms s))"
      by (rule singleBinding_shrinks [OF assms m]) simp
    with Some f \<open>ensureIdentified (socketUserId s sid) = Some u\<close> assms show ?thesis
      by (cases ro) (simp_all add: onRoomCreate_def Let_def)
  qed
qed

lemma singleBinding_onDisconnect:
  assumes "singleBinding (rooms s)"
  shows "singleBinding (rooms (fst (onDisconnect s sid)))"
proof (cases "findRoomBySocketId (rooms s) sid")
  case None
  then show ?thesis using assms by (simp add: onDisconnect_def removeSocket_def Let_def)
next
  case (Some found)
  obtain r ro where f: "found = (r, ro)" by (cases found)
  have m: "r \<in> set (rooms s)" using findRoomBySocketId_Some Some f by blast
  have "singleBinding (putRoom (clearSocket r ro) (rooms s))"
    by (rule singleBinding_shrinks [OF assms m]) simp
  with Some f show ?thesis by (simp add: onDisconnect_def removeSocket_def Let_def)
qed

lemma singleBinding_onConnect:
  "singleBinding (rooms s) \<Longrightarrow> singleBinding (rooms (fst (onConnect s sid)))"
  by (simp add: onConnect_def)

lemma singleBinding_onRoomJoin:
  assumes inv: "singleBinding (rooms s)"
  shows "singleBinding (rooms (fst (onRoomJoin s sid k)))"
proof (cases "isRoomId k")
  case False
  then show ?thesis using inv by (simp add: onRoomJoin_def)
next
  case valid: True
  show ?thesis
  proof (cases "ensureIdentified (socketUserId s sid)")
    case None
    with valid inv show ?thesis by (simp add: onRoomJoin_def)
  next
    case (Some u)
    note ident = this
    show ?thesis
    proof (cases "getRoom (rooms s) k")
      case None
      with valid ident inv show ?thesis by (simp add: onRoomJoin_def)
    next
      case (Some r0)
      let ?r = "normalizeRoomState r0"
      let ?rs1 = "putRoom ?r (rooms s)"
      let ?r' = "?r\<lparr>clientUserId := Some u, clientSocketId := Some sid,
                      controlActive := False, cameraActive := False\<rparr>"
      have inv1: "singleBinding ?rs1" and mem1: "?r \<in> set ?rs1"
        using singleBinding_normalized [OF inv Some] by blast+
      have joined: "singleBinding (putRoom ?r' ?rs1)"
        if here: "case findRoomByUserId ?rs1 u of None \<Rightarrow> True
                  | Some (er, ero) \<Rightarrow> roomId er = roomId ?r"
          and nothost: "hostUserId ?r \<noteq> u"
      proof (rule singleBinding_putRoom [OF inv1 mem1])
        show "roomId ?r' = roomId ?r" "hostUserId ?r' = hostUserId ?r" by simp_all
        show "clientUserId ?r' \<noteq> Some (hostUserId ?r')" using nothost by simp
        fix v x assume c: "clientUserId ?r' = Some v" and x: "x \<in> set ?rs1" "bound x v"
        from c have v: "v = u" by simp
        show "roomId x = roomId ?r"
        proof (cases "findRoomByUserId ?rs1 u")
          case None
          from findRoomByUserId_None [OF None x(1)] x(2) v show ?thesis by simp
        next
          case (Some found)
          obtain er ero where f: "found = (er, ero)" by (cases found)
          from here Some f have same: "roomId er = roomId ?r" by simp
          from findRoomByUserId_Some Some f have "er \<in> set ?rs1" "bound er u" by blast+
          with inv1 x v have "roomId x = roomId er"
            unfolding singleBinding_def by blast
          with same show ?thesis by simp
        qed
      qed
      show ?thesis
      proof (cases "findRoomByUserId ?rs1 u")
        case None
        with valid ident Some inv1 joined show ?thesis
          by (simp add: onRoomJoin_def Let_def)
      next
        case found: (Some found)
        obtain er ero where f: "found = (er, ero)" by (cases found)
        with valid ident Some inv1 joined found show ?thesis
          by (simp add: onRoomJoin_def Let_def)
      qed
    qed
  qed
qed

lemma singleBinding_step:
  assumes "singleBinding (rooms s)" and "\<not> isRejoin ev"
  shows "singleBinding (rooms (fst (step s ev)))"
proof (cases ev)
  case (Connect sid)
  with assms show ?thesis by (simp add: singleBinding_onConnect)
next
  case (Disconnect sid)
  with assms show ?thesis by (simp add: singleBinding_onDisconnect)
next
  case (Receive sid req)
  with assms show ?thesis
    by (cases req)
       (simp_all add: singleBinding_onIdentify singleBinding_onRoomCreate
          singleBinding_onRoomJoin singleBinding_onWebrtcSignal singleBinding_onControlStatus
          singleBinding_onCameraRequest singleBinding_onCameraPermission
          singleBinding_onCameraState singleBinding_onMediaKind)
qed

lemma singleBinding_run:
  "singleBinding (rooms s) \<Longrightarrow> list_all (\<lambda>ev. \<not> isRejoin ev) evs
     \<Longrightarrow> singleBinding (rooms (run s evs))"
proof (induction evs arbitrary: s)
  case Nil
  then show ?case by (simp add: run_Nil)
next
  case (Cons ev evs)
  from Cons.prems have "singleBinding (rooms (fst (step s ev)))"
    by (simp add: singleBinding_step)
  with Cons.IH Cons.prems show ?case by (simp add: run_Cons)
qed

lemma userBindings_Nil: "\<forall>r \<in> set rs. \<not> bound r u \<Longrightarrow> userBindings rs u = []"
  by (induction rs) (auto simp: userBindings_def bound_def)

lemma singleBinding_tail: "singleBinding (r # rs) \<Longrightarrow> singleBinding rs"
  unfolding singleBinding_def by auto

lemma singleBinding_userBindings: "singleBinding rs \<Longrightarrow> length (userBindings rs u) \<le> 1"
proof (induction rs)
  case Nil
  then show ?case by (simp add: userBindings_def)
next
  case (Cons r rs)
  have split: "userBindings (r # rs) u = userBindings [r] u @ userBindings rs u"
    by (simp add: userBindings_def)
  have own: "length (userBindings [r] u) \<le> 1"
    using Cons.prems by (auto simp: userBindings_def singleBinding_def)
  show ?case
  proof (cases "bound r u")
    case False
    then have "userBindings [r] u = []" by (auto simp: userBindings_def bound_def)
    with Cons.IH [OF singleBinding_tail [OF Cons.prems]] split show ?thesis by simp
  next
    case True
    have "\<forall>x \<in> set rs. \<not> bound x u"
    proof
      fix x assume x: "x \<in> set rs"
      show "\<not> bound x u"
      proof
        assume "bound x u"
        with True x Cons.prems have "roomId r = roomId x"
          unfolding singleBinding_def by (meson list.set_intros)
        moreover from Cons.prems x have "roomId r \<noteq> roomId x"
          unfolding singleBinding_def by auto
        ultimately show False by simp
      qed
    qed
    then have "userBindings rs u = []" by (rule userBindings_Nil)
    with own split show ?thesis by simp
  qed
qed

text \<open>
  Claim C4. In every state the gateway reaches from the empty registry through
  \<open>connect\<close>, \<open>identify\<close>, \<open>room:create\<close>, \<open>room:join\<close>, \<open>disconnect\<close> and the room
  operations other than \<open>rejoin-room\<close>, by any connections in any order, each user id is
  recorded as \<open>hostUserId\<close> or \<open>clientUserId\<close> of at most one room, and there in at
  most one role.
\<close>

theorem user_bound_to_at_most_one_room_and_role:
  assumes "list_all (\<lambda>ev. \<not> isRejoin ev) evs"
  shows "length (userBindings (rooms (run newServer evs)) u) \<le> 1"
proof -
  have "singleBinding (rooms newServer)"
    by (simp add: newServer_def singleBinding_def)
  from singleBinding_run [OF this assms] show ?thesis
    by (rule singleBinding_userBindings)
qed

theorem user_bound_to_at_most_one_room_and_role_witness:
  "list_all (\<lambda>ev. \<not> isRejoin ev) lateRivalTrace
   \<and> userBindings (rooms (run newServer lateRivalTrace)) ''client-001'' = [(''482913'', Client)]
   \<and> length (userBindings (rooms (run newServer lateRivalTrace)) ''client-001'') \<le> 1"
proof -
  have a: "list_all (\<lambda>ev. \<not> isRejoin ev) lateRivalTrace"
    by (simp add: lateRivalTrace_def pairingTrace_def)
  have b: "userBindings (rooms (run newServer lateRivalTrace)) ''client-001''
           = [(''482913'', Client)]"
    unfolding run_lateRivalTrace by (simp add: userBindings_def example_defs)
  from user_bound_to_at_most_one_room_and_role [OF a, of "''client-001''"] a b
  show ?thesis by blast
qed

text \<open>
  The hypothesis on \<open>rejoin-room\<close> is needed: that handler binds the caller as client of
  a room without asking whether the caller is recorded in another room.
\<close>

lemma run_twoRoomsTrace: "run newServer twoRoomsTrace = twoRooms"
proof -
  have a: "fst (step roomOpened (Connect ''sock-y''))
           = \<lparr> rooms = [hostOnlyRoom],
               sockets = [''sock-h'' \<mapsto> Some ''host-00001'', ''sock-y'' \<mapsto> None] \<rparr>"
    by (simp add: roomOpened_def onConnect_def)
  have b: "fst (step \<lparr> rooms = [hostOnlyRoom],
               sockets = [''sock-h'' \<mapsto> Some ''host-00001'', ''sock-y'' \<mapsto> None] \<rparr>
             (Receive ''sock-y'' (Identify ''second-host'')))
           = \<lparr> rooms = [hostOnlyRoom],
               sockets = [''sock-h'' \<mapsto> Some ''host-00001'',
                          ''sock-y'' \<mapsto> Some ''second-host''] \<rparr>"
    by (simp add: onIdentify_def isUserId_def isUserIdChar_def hostOnlyRoom_def Let_def)
  have c: "fst (step \<lparr> rooms = [hostOnlyRoom],
               sockets = [''sock-h'' \<mapsto> Some ''host-00001'',
                          ''sock-y'' \<mapsto> Some ''second-host''] \<rparr>
             (Receive ''sock-y'' (RoomCreate (\<lambda>attempt. 111111))))
           = twoRooms"
    by (simp add: twoRooms_def secondRoom_def hostOnlyRoom_def eval_defs)
  show ?thesis
    unfolding twoRoomsTrace_def
    by (simp only: run_Cons run_Nil step_hostConnected step_hostIdentified step_roomOpened
        a b c)
qed

lemma rejoin_room_binds_second_room_example:
  "userBindings (rooms (run newServer twoRoomsTrace)) ''host-00001'' = [(''482913'', Host)]
   \<and> userBindings
        (rooms (run newServer
           (twoRoomsTrace @ [Receive ''sock-h'' (RejoinRoom ''111111'' ''client'')])))
        ''host-00001''
      = [(''482913'', Host), (''111111'', Client)]"
proof -
  have n: "normalizeRoomState secondRoom = secondRoom"
    by (simp add: secondRoom_def normalizeRoomState_def truthy_def Let_def)
  have g: "getRoom (rooms twoRooms) ''111111'' = Some secondRoom"
    by (simp add: getRoom_def twoRooms_def secondRoom_def hostOnlyRoom_def)
  let ?r1 = "secondRoom\<lparr>clientUserId := Some ''host-00001''\<rparr>"
  have rs: "fst (restoreSession (Some ''host-00001'') ''sock-h'' ?r1 Client)
            = ?r1\<lparr>clientSocketId := Some ''sock-h''\<rparr>"
    by (simp add: restoreSession_def normalizeRoomState_def attachSocket_def secondRoom_def
        truthy_def Let_def)
  have v: "isRoomId ''111111''" "isRole ''client''" "roleOfString ''client'' = Client"
    by (simp_all add: isRoomId_def isDigit_def isRole_def roleOfString_def)
  have u: "ensureIdentified (socketUserId twoRooms ''sock-h'') = Some ''host-00001''"
    by (simp add: ensureIdentified_def socketUserId_def twoRooms_def truthy_def)
  have rooms2: "rooms (fst (onRejoinRoom twoRooms ''sock-h'' ''111111'' ''client''))
           = [hostOnlyRoom, ?r1\<lparr>clientSocketId := Some ''sock-h''\<rparr>]"
    unfolding onRejoinRoom_def Let_def
    apply (simp only: v u g n simp_thms if_True if_False option.case)
    apply (simp add: rs twoRooms_def)
    apply (simp add: putRoom_def secondRoom_def hostOnlyRoom_def truthy_def)
    done
  have live: "sockets twoRooms ''sock-h'' \<noteq> None"
    by (simp add: twoRooms_def)
  have before: "userBindings (rooms twoRooms) ''host-00001'' = [(''482913'', Host)]"
    by (simp add: userBindings_def twoRooms_def secondRoom_def hostOnlyRoom_def)
  have after: "userBindings [hostOnlyRoom, ?r1\<lparr>clientSocketId := Some ''sock-h''\<rparr>]
                 ''host-00001'' = [(''482913'', Host), (''111111'', Client)]"
    by (simp add: userBindings_def secondRoom_def hostOnlyRoom_def)
  show ?thesis
    unfolding run_append run_twoRoomsTrace
    using before after rooms2 live by (simp add: run_Cons run_Nil)
qed

subsection \<open>ICE candidate buffering\<close>

lemma candidatesAdded_append [simp]:
  "candidatesAdded (xs @ ys) = candidatesAdded xs @ candidatesAdded ys"
  by (simp add: candidatesAdded_def)

lemma candidatesAdded_map [simp]: "candidatesAdded (map AddIceCandidate xs) = xs"
  by (induction xs) (simp_all add: candidatesAdded_def)

lemma candidatesAdded_Cons [simp]:
  "candidatesAdded (a # acts)
   = (case a of AddIceCandidate x \<Rightarrow> [x] | _ \<Rightarrow> []) @ candidatesAdded acts"
  by (simp add: candidatesAdded_def)

lemma candidatesAdded_Nil [simp]: "candidatesAdded [] = []"
  by (simp add: candidatesAdded_def)

lemma remoteDescription_addQueued [simp]:
  "remoteDescription (addQueued b c xs) = remoteDescription c"
  by (induction xs arbitrary: c) simp_all

lemma remoteCandidates_addQueued:
  "remoteCandidates (addQueued b c xs)
   = remoteCandidates c @ filter (addIceCandidateOk b (remoteDescription c)) xs"
  by (induction xs arbitrary: c) simp_all

text \<open>What \<open>ensurePeerConnection\<close> leaves untouched.\<close>

lemma ensurePeerConnection_frame:
  "pendingIceCandidates (fst (ensurePeerConnection ro m)) = pendingIceCandidates m"
  "candidatesAdded (actions (fst (ensurePeerConnection ro m))) = candidatesAdded (actions m)"
  "acceptedCandidates (fst (ensurePeerConnection ro m)) = acceptedCandidates m"
  "remoteDescriptionOf (fst (ensurePeerConnection ro m)) = remoteDescriptionOf m"
  "peerConnection (fst (ensurePeerConnection ro m)) = Some (snd (ensurePeerConnection ro m))"
  by (simp_all add: ensurePeerConnection_def acceptedCandidates_def remoteDescriptionOf_def
      Let_def split: option.splits)

lemma ensurePeerConnection_connection:
  "remoteDescription (snd (ensurePeerConnection ro m)) = remoteDescriptionOf m"
  "remoteCandidates (snd (ensurePeerConnection ro m)) = acceptedCandidates m"
  by (simp_all add: ensurePeerConnection_def acceptedCandidates_def remoteDescriptionOf_def
      Let_def split: option.splits)

text \<open>A candidate that arrives before any remote description is queued, at the end.\<close>

lemma handleSignal_queues_candidate:
  assumes "\<not> hasRemoteDescription m"
  shows "pendingIceCandidates (fst (handleSignal b ro m (IceCandidate x)))
           = pendingIceCandidates m @ [x]"
    and "candidatesAdded (actions (fst (handleSignal b ro m (IceCandidate x))))
           = candidatesAdded (actions m)"
    and "acceptedCandidates (fst (handleSignal b ro m (IceCandidate x)))
           = acceptedCandidates m"
    and "\<not> hasRemoteDescription (fst (handleSignal b ro m (IceCandidate x)))"
    and "snd (handleSignal b ro m (IceCandidate x)) = None"
  using assms
  by (simp_all add: handleSignal_def hasRemoteDescription_def ensurePeerConnection_frame
      ensurePeerConnection_connection acceptedCandidates_def remoteDescriptionOf_def Let_def)

lemma handleSignals_queues_candidates:
  assumes "\<not> hasRemoteDescription m"
  shows "pendingIceCandidates (handleSignals b ro m (map IceCandidate cs))
           = pendingIceCandidates m @ cs
         \<and> candidatesAdded (actions (handleSignals b ro m (map IceCandidate cs)))
           = candidatesAdded (actions m)
         \<and> acceptedCandidates (handleSignals b ro m (map IceCandidate cs))
           = acceptedCandidates m
         \<and> \<not> hasRemoteDescription (handleSignals b ro m (map IceCandidate cs))"
  using assms
proof (induction cs arbitrary: m)
  case Nil
  then show ?case by (simp add: handleSignals_def)
next
  case (Cons x cs)
  let ?m = "fst (handleSignal b ro m (IceCandidate x))"
  have step: "handleSignals b ro m (map IceCandidate (x # cs))
              = handleSignals b ro ?m (map IceCandidate cs)"
    by (simp add: handleSignals_def)
  from Cons.IH [OF handleSignal_queues_candidate(4) [OF Cons.prems]]
    handleSignal_queues_candidate(1,2,3) [OF Cons.prems]
  show ?case unfolding step by simp
qed

text \<open>
  A signal that leaves the connection with a remote description, on a manager that had
  none: the queue is flushed.
\<close>

lemma handleSignal_flushes:
  assumes "\<not> hasRemoteDescription m"
    and "hasRemoteDescription (fst (handleSignal b ro m d))"
  shows "pendingIceCandidates (fst (handleSignal b ro m d)) = []
         \<and> candidatesAdded (actions (fst (handleSignal b ro m d)))
           = candidatesAdded (actions m) @ pendingIceCandidates m
         \<and> acceptedCandidates (fst (handleSignal b ro m d))
           = acceptedCandidates m
             @ filter (addIceCandidateOk b (remoteDescriptionOf (fst (handleSignal b ro m d))))
                 (pendingIceCandidates m)"
proof (cases d)
  case (IceCandidate x)
  with assms handleSignal_queues_candidate(4) [of m b ro x] show ?thesis by simp
next
  case (Offer sdp)
  with assms show ?thesis
    by (auto simp: handleSignal_def hasRemoteDescription_def ensurePeerConnection_frame
        ensurePeerConnection_connection acceptedCandidates_def remoteDescriptionOf_def
        flushPendingIceCandidates_def remoteCandidates_addQueued Let_def
        split: if_splits promise.splits)
next
  case (Answer sdp)
  with assms show ?thesis
    by (auto simp: handleSignal_def hasRemoteDescription_def ensurePeerConnection_frame
        ensurePeerConnection_connection acceptedCandidates_def remoteDescriptionOf_def
        flushPendingIceCandidates_def remoteCandidates_addQueued Let_def
        split: if_splits)
qed

text \<open>
  Claim C7. On a manager without a remote description, the candidates \<open>cs\<close> that
  \<open>handleSignal\<close> receives are appended to the pending queue in arrival order, and none
  is passed to the connection. When a following signal leaves the connection with a
  remote description, every queued candidate is passed to \<^verbatim>\<open>addIceCandidate\<close> in that
  order, those the connection accepts are added in that order, those it rejects are
  skipped, and the queue is empty afterwards.
\<close>

theorem buffered_candidates_flushed_in_order:
  assumes "\<not> hasRemoteDescription m"
    and "m1 = handleSignals b ro m (map IceCandidate cs)"
    and "m2 = fst (handleSignal b ro m1 d)"
    and "hasRemoteDescription m2"
  shows "pendingIceCandidates m1 = pendingIceCandidates m @ cs
         \<and> candidatesAdded (actions m1) = candidatesAdded (actions m)
         \<and> pendingIceCandidates m2 = []
         \<and> candidatesAdded (actions m2)
             = candidatesAdded (actions m) @ pendingIceCandidates m @ cs
         \<and> acceptedCandidates m2
             = acceptedCandidates m
               @ filter (addIceCandidateOk b (remoteDescriptionOf m2))
                   (pendingIceCandidates m @ cs)"
proof -
  from handleSignals_queues_candidates [OF assms(1), of b ro cs] assms(2)
  have q: "pendingIceCandidates m1 = pendingIceCandidates m @ cs"
    "candidatesAdded (actions m1) = candidatesAdded (actions m)"
    "acceptedCandidates m1 = acceptedCandidates m"
    "\<not> hasRemoteDescription m1"
    by simp_all
  from handleSignal_flushes [OF q(4), of b ro d] assms(3,4)
  have f: "pendingIceCandidates m2 = []"
    "candidatesAdded (actions m2) = candidatesAdded (actions m1) @ pendingIceCandidates m1"
    "acceptedCandidates m2
       = acceptedCandidates m1
         @ filter (addIceCandidateOk b (remoteDescriptionOf m2)) (pendingIceCandidates m1)"
    by simp_all
  show ?thesis using q(1,2) f unfolding q(3) by simp
qed

lemma example_candidates_queued:
  "handleSignals exampleRtc (Some Host) newManager
     (map IceCandidate [firstCandidate, staleCandidate, lastCandidate])
   = \<lparr> peerConnection = Some \<lparr> remoteDescription = None, remoteCandidates = [] \<rparr>,
       pendingIceCandidates = [firstCandidate, staleCandidate, lastCandidate],
       isNegotiating = False, hasQueuedRenegotiation = False, suspended = [],
       actions = [NewPeerConnection] \<rparr>"
  by (simp add: handleSignals_def handleSignal_def ensurePeerConnection_def newManager_def
      Let_def)

lemma example_offer_applied:
  "fst (handleSignal exampleRtc (Some Host)
     \<lparr> peerConnection = Some \<lparr> remoteDescription = None, remoteCandidates = [] \<rparr>,
       pendingIceCandidates = [firstCandidate, staleCandidate, lastCandidate],
       isNegotiating = False, hasQueuedRenegotiation = False, suspended = [],
       actions = [NewPeerConnection] \<rparr>
     (Offer ''v=0 offer''))
   = \<lparr> peerConnection = Some \<lparr> remoteDescription = Some (''offer'', ''v=0 offer''),
                                 remoteCandidates = [firstCandidate, lastCandidate] \<rparr>,
       pendingIceCandidates = [],
       isNegotiating = False, hasQueuedRenegotiation = False, suspended = [],
       actions = [NewPeerConnection, SetRemoteDescription ''offer'' ''v=0 offer'',
                  AddIceCandidate firstCandidate, AddIceCandidate staleCandidate,
                  AddIceCandidate lastCandidate, CreateAnswer,
                  SetLocalDescription (Some ''v=0 answer''),
                  OnSignal (Answer ''v=0 answer'')] \<rparr>"
  by (simp add: handleSignal_def ensurePeerConnection_def flushPendingIceCandidates_def
      exampleRtc_def firstCandidate_def staleCandidate_def lastCandidate_def truthy_def
      Let_def)

theorem buffered_candidates_flushed_in_order_witness:
  "\<not> hasRemoteDescription newManager
   \<and> hasRemoteDescription
       (fst (handleSignal exampleRtc (Some Host)
          (handleSignals exampleRtc (Some Host) newManager
             (map IceCandidate [firstCandidate, staleCandidate, lastCandidate]))
          (Offer ''v=0 offer'')))
   \<and> pendingIceCandidates
       (handleSignals exampleRtc (Some Host) newManager
          (map IceCandidate [firstCandidate, staleCandidate, lastCandidate]))
       = [firstCandidate, staleCandidate, lastCandidate]
   \<and> pendingIceCandidates
       (fst (handleSignal exampleRtc (Some Host)
          (handleSignals exampleRtc (Some Host) newManager
             (map IceCandidate [firstCandidate, staleCandidate, lastCandidate]))
          (Offer ''v=0 offer''))) = []
   \<and> candidatesAdded (actions
       (fst (handleSignal exampleRtc (Some Host)
          (handleSignals exampleRtc (Some Host) newManager
             (map IceCandidate [firstCandidate, staleCandidate, lastCandidate]))
          (Offer ''v=0 offer''))))
       = [firstCandidate, staleCandidate, lastCandidate]
   \<and> acceptedCandidates
       (fst (handleSignal exampleRtc (Some Host)
          (handleSignals exampleRtc (Some Host) newManager
             (map IceCandidate [firstCandidate, staleCandidate, lastCandidate]))
          (Offer ''v=0 offer'')))
       = [firstCandidate, lastCandidate]"
proof -
  let ?cs = "[firstCandidate, staleCandidate, lastCandidate]"
  let ?m1 = "handleSignals exampleRtc (Some Host) newManager (map IceCandidate ?cs)"
  let ?m2 = "fst (handleSignal exampleRtc (Some Host) ?m1 (Offer ''v=0 offer''))"
  have a: "\<not> hasRemoteDescription newManager"
    by (simp add: hasRemoteDescription_def remoteDescriptionOf_def newManager_def)
  have d: "remoteDescriptionOf ?m2 = Some (''offer'', ''v=0 offer'')"
    unfolding example_candidates_queued example_offer_applied
    by (simp add: remoteDescriptionOf_def)
  then have h: "hasRemoteDescription ?m2"
    by (simp add: hasRemoteDescription_def)
  have n: "pendingIceCandidates newManager = []" "candidatesAdded (actions newManager) = []"
    "acceptedCandidates newManager = []"
    by (simp_all add: newManager_def acceptedCandidates_def)
  have ok: "addIceCandidateOk exampleRtc (Some (''offer'', ''v=0 offer'')) firstCandidate"
    "\<not> addIceCandidateOk exampleRtc (Some (''offer'', ''v=0 offer'')) staleCandidate"
    "addIceCandidateOk exampleRtc (Some (''offer'', ''v=0 offer'')) lastCandidate"
    by (simp_all add: exampleRtc_def firstCandidate_def staleCandidate_def lastCandidate_def)
  from buffered_candidates_flushed_in_order [OF a refl refl h]
  have "pendingIceCandidates ?m1 = ?cs \<and> pendingIceCandidates ?m2 = []
        \<and> candidatesAdded (actions ?m2) = ?cs
        \<and> acceptedCandidates ?m2 = [firstCandidate, lastCandidate]"
    unfolding d n by (simp add: ok)
  with a h show ?thesis by blast
qed

subsection \<open>Renegotiation\<close>


lemma roundsStarted_update [simp]:
  "roundsStarted (m\<lparr>isNegotiating := x\<rparr>) = roundsStarted m"
  "roundsStarted (m\<lparr>hasQueuedRenegotiation := y\<rparr>) = roundsStarted m"
  "roundsStarted (m\<lparr>suspended := z\<rparr>) = roundsStarted m"
  "roundsStarted (m\<lparr>actions := actions m @ [a]\<rparr>)
   = (if a = CreateOffer then Suc (roundsStarted m) else roundsStarted m)"
  by (simp_all add: roundsStarted_def)





text \<open>The rejection that follows the \<^verbatim>\<open>finally\<close> block changes no negotiation state.\<close>

lemma rejectAfterFinally_fields [simp]:
  "isNegotiating (rejectAfterFinally ro m e) = isNegotiating (negotiateFinally ro m)"
  "hasQueuedRenegotiation (rejectAfterFinally ro m e)
   = hasQueuedRenegotiation (negotiateFinally ro m)"
  "suspended (rejectAfterFinally ro m e) = suspended (negotiateFinally ro m)"
  "roundsStarted (rejectAfterFinally ro m e) = roundsStarted (negotiateFinally ro m)"
  by (simp_all add: rejectAfterFinally_def Let_def)






text \<open>Closing the connection while nothing is suspended keeps the invariant.\<close>

lemma closePeerConnection_fields [simp]:
  "\<not> isNegotiating (closePeerConnection m)"
  "\<not> hasQueuedRenegotiation (closePeerConnection m)"
  "suspended (closePeerConnection m) = suspended m"
  by (simp_all add: closePeerConnection_def)



lemma negRun_Nil [simp]: "negRun m [] = m"
  by (simp add: negRun_def)

lemma negRun_Cons [simp]: "negRun m (ev # evs) = negRun (negStep m ev) evs"
  by (simp add: negRun_def)

lemma negRun_append: "negRun m (evs @ evs') = negRun (negRun m evs) evs'"
  by (simp add: negRun_def)













text \<open>
  The order at the end of a failed round: the follow-up round's \<^verbatim>\<open>createOffer\<close> is
  called in the \<^verbatim>\<open>finally\<close> block, before the promise of the failed call rejects.
\<close>

lemma follow_up_before_rejection_example:
  "actions (negRun newManager
      [Negotiate (Some Client), Negotiate (Some Client), Settle 0 Rejects (Some Client)])
   = [NewPeerConnection, CreateDataChannel, CreateOffer, CreateOffer,
      NegotiationRejected BrowserError]"
  by (simp add: newManager_def negotiateAsClient_def ensurePeerConnection_def
      resumeNegotiation_def rejectAfterFinally_def negotiateFinally_def Let_def)

end
